theory Spec2Isabelle
  imports Main "HOL-Library.Multiset"
begin

section \<open>Domain model (entities/Notification.ts, entities/UserPreferences.ts)\<close>

text \<open>
  Instants (JavaScript \<open>Date\<close> values) are integers: milliseconds since the epoch.
  An optional field (\<open>field?: T\<close>) is an \<open>option\<close>. Strings are lists of code units.
  Field names are those of the source, except \<open>id\<close> and \<open>type\<close> of a notification
  (\<open>nid\<close>, \<open>ntype\<close>) and the fields that several classes share, which carry a
  prefix in all but one of them (\<open>p_\<close> preferences, \<open>s_\<close> subscription, \<open>d_\<close> request,
  \<open>r_\<close> response, \<open>t_\<close> thrown value, \<open>b_\<close> batch result).
\<close>

datatype NotificationType = INFO | SUCCESS | WARNING | ERROR | SYSTEM

text \<open>The channel \<open>ALL\<close> is written \<open>ALL_CHANNELS\<close>.\<close>

datatype NotificationChannel = IN_APP | PUSH | WEBSOCKET | ALL_CHANNELS

datatype NotificationPriority = LOW | NORMAL | HIGH | URGENT

record NotificationAction =
  label :: string
  url :: "string option"
  action :: "string option"
  data :: "string option"

record Notification =
  nid :: string
  userId :: string
  ntype :: NotificationType
  title :: string
  message :: string
  channels :: "NotificationChannel list"
  priority :: NotificationPriority
  metadata :: "(string \<times> string) list option"
  actions :: "NotificationAction list option"
  expiresAt :: "int option"
  imageUrl :: "string option"
  iconUrl :: "string option"
  isRead :: bool
  readAt :: "int option"
  createdAt :: int
  deliveredAt :: "int option"
  failedAt :: "int option"
  errorMessage :: "string option"

record ChannelPreferences =
  inApp :: bool
  push :: bool
  websocket :: bool

record QuietHours =
  enabled :: bool
  startTime :: string
  endTime :: string
  timezone :: string

text \<open>
  \<open>preferences\<close> is the object indexed by notification type. The interface lists all five
  types, yet \<open>shouldReceiveNotification\<close> tests \<open>!typePrefs\<close>, so a missing entry is
  kept representable: \<open>None\<close> is \<open>undefined\<close>.
\<close>

record UserPreferences =
  p_id :: string
  p_userId :: string
  preferences :: "NotificationType \<Rightarrow> ChannelPreferences option"
  quietHours :: QuietHours
  language :: string
  soundEnabled :: bool
  vibrationEnabled :: bool

text \<open>A thrown value: its \<open>message\<close> and \<open>statusCode\<close> properties, either of which may be absent.\<close>

record Thrown =
  t_message :: "string option"
  t_statusCode :: "nat option"

definition Error :: "string \<Rightarrow> Thrown" where
  "Error m = \<lparr>t_message = Some m, t_statusCode = None\<rparr>"

definition AppError :: "string \<Rightarrow> nat \<Rightarrow> Thrown" where
  "AppError m c = \<lparr>t_message = Some m, t_statusCode = Some c\<rparr>"

text \<open>\<open>s || d\<close> on an optional string: \<open>undefined\<close> and the empty string are falsy.\<close>

definition orElse :: "string option \<Rightarrow> string \<Rightarrow> string" where
  "orElse s d = (case s of None \<Rightarrow> d | Some v \<Rightarrow> if v = [] then d else v)"

section \<open>The environment: clock, identifiers and repositories\<close>

text \<open>
  Everything the code reaches outside itself is a field of the environment, a transition on
  an abstract world \<open>'w\<close>: \<open>new Date()\<close>, \<open>uuidv4()\<close>, and the repository methods, which
  either resolve with a value or reject with a thrown value. \<open>getTimezoneOffset\<close> is the
  process's zone as \<open>Date.prototype.getTimezoneOffset\<close> reports it: minutes to add to local
  time to reach UTC, at a given instant. \<open>localTZA\<close> is the same zone read the other way:
  the offset from UTC, in milliseconds, in force at a given local time (the language's
  \<open>LocalTZA(t, false)\<close>, which settles the local times a change of offset skips or repeats).
\<close>

record 'w env =
  newDate :: "'w \<Rightarrow> int \<times> 'w"
  getTimezoneOffset :: "int \<Rightarrow> int"
  localTZA :: "int \<Rightarrow> int"
  uuidv4 :: "'w \<Rightarrow> string \<times> 'w"
  prefs_findByUserId :: "string \<Rightarrow> 'w \<Rightarrow> (Thrown + UserPreferences option) \<times> 'w"
  notif_save :: "Notification \<Rightarrow> 'w \<Rightarrow> (Thrown + Notification) \<times> 'w"
  notif_findById :: "string \<Rightarrow> 'w \<Rightarrow> (Thrown + Notification option) \<times> 'w"
  notif_markAsRead :: "string \<Rightarrow> 'w \<Rightarrow> (Thrown + unit) \<times> 'w"

text \<open>
  The language's \<open>LocalTime\<close> and \<open>UTC\<close>: from an instant to the local time value
  and back.
\<close>

definition LocalTime :: "'w env \<Rightarrow> int \<Rightarrow> int" where
  "LocalTime e t = t - getTimezoneOffset e t * 60000"

definition UTC :: "'w env \<Rightarrow> int \<Rightarrow> int" where
  "UTC e t = t - localTZA e t"

text \<open>\<open>Date.prototype.getHours\<close> and \<open>getMinutes\<close>: the local time of day of an instant.\<close>

definition localMinutes :: "'w env \<Rightarrow> int \<Rightarrow> int" where
  "localMinutes e t = t div 60000 - getTimezoneOffset e t"

definition getHours :: "'w env \<Rightarrow> int \<Rightarrow> nat" where
  "getHours e t = nat ((localMinutes e t div 60) mod 24)"

definition getMinutes :: "'w env \<Rightarrow> int \<Rightarrow> nat" where
  "getMinutes e t = nat (localMinutes e t mod 60)"

section \<open>UserPreferences\<close>

text \<open>
  \<open>startTime.split(':').map(Number)\<close> followed by the destructuring of the first two
  elements. A number is a \<open>nat option\<close> with \<open>None\<close> for \<open>NaN\<close>. \<open>Number\<close> is modelled
  on strings of decimal digits (the empty string is 0), which covers the \<open>HH:mm\<close> format
  the preference validator enforces; any other string is taken as \<open>NaN\<close>.
\<close>

fun split_colon :: "string \<Rightarrow> string list" where
  "split_colon [] = [[]]"
| "split_colon (c # cs) =
     (if c = CHR '':'' then [] # split_colon cs
      else (case split_colon cs of [] \<Rightarrow> [[c]] | p # ps \<Rightarrow> (c # p) # ps))"

definition digit_val :: "char \<Rightarrow> nat option" where
  "digit_val c =
     (let k = (of_char c :: nat) in if 48 \<le> k \<and> k \<le> 57 then Some (k - 48) else None)"

fun Number_acc :: "nat \<Rightarrow> string \<Rightarrow> nat option" where
  "Number_acc a [] = Some a"
| "Number_acc a (c # cs) =
     (case digit_val c of None \<Rightarrow> None | Some d \<Rightarrow> Number_acc (10 * a + d) cs)"

definition Number :: "string \<Rightarrow> nat option" where
  "Number s = Number_acc 0 s"

text \<open>\<open>h * 60 + m\<close> where a missing element (\<open>undefined\<close>) or a \<open>NaN\<close> gives \<open>NaN\<close>.\<close>

definition timeMinutes :: "string \<Rightarrow> nat option" where
  "timeMinutes s =
     (case map Number (split_colon s) of
        h # m # _ \<Rightarrow> (case (h, m) of (Some hh, Some mm) \<Rightarrow> Some (hh * 60 + mm) | _ \<Rightarrow> None)
      | _ \<Rightarrow> None)"

text \<open>Comparisons of numbers: any comparison with \<open>NaN\<close> is false.\<close>

definition num_lt :: "nat option \<Rightarrow> nat option \<Rightarrow> bool" where
  "num_lt a b = (case (a, b) of (Some x, Some y) \<Rightarrow> x < y | _ \<Rightarrow> False)"

definition num_ge :: "nat option \<Rightarrow> nat option \<Rightarrow> bool" where
  "num_ge a b = (case (a, b) of (Some x, Some y) \<Rightarrow> x \<ge> y | _ \<Rightarrow> False)"

definition isQuietHours :: "'w env \<Rightarrow> UserPreferences \<Rightarrow> 'w \<Rightarrow> bool \<times> 'w" where
  "isQuietHours e p w =
     (if \<not> enabled (quietHours p) then (False, w)
      else
        let (now, w1) = newDate e w;
            startMinutes = timeMinutes (startTime (quietHours p));
            endMinutes = timeMinutes (endTime (quietHours p));
            currentMinutes = Some (getHours e now * 60 + getMinutes e now)
        in if num_lt startMinutes endMinutes
           then (num_ge currentMinutes startMinutes \<and> num_lt currentMinutes endMinutes, w1)
           else (num_ge currentMinutes startMinutes \<or> num_lt currentMinutes endMinutes, w1))"

definition channelFlag :: "ChannelPreferences \<Rightarrow> NotificationChannel \<Rightarrow> bool" where
  "channelFlag typePrefs channel =
     (case channel of
        IN_APP \<Rightarrow> inApp typePrefs
      | PUSH \<Rightarrow> push typePrefs
      | WEBSOCKET \<Rightarrow> websocket typePrefs
      | ALL_CHANNELS \<Rightarrow> (inApp typePrefs \<or> push typePrefs \<or> websocket typePrefs))"

definition shouldReceiveNotification ::
  "'w env \<Rightarrow> UserPreferences \<Rightarrow> NotificationType \<Rightarrow> NotificationChannel \<Rightarrow> 'w \<Rightarrow> bool \<times> 'w" where
  "shouldReceiveNotification e p ty channel w =
     (let (quiet, w1) = isQuietHours e p w
      in if quiet then (False, w1)
         else (case preferences p ty of
                 None \<Rightarrow> (False, w1)
               | Some typePrefs \<Rightarrow> (channelFlag typePrefs channel, w1)))"

text \<open>Reading a flag of a missing entry throws a \<open>TypeError\<close>.\<close>

definition getEnabledChannels ::
  "UserPreferences \<Rightarrow> NotificationType \<Rightarrow> Thrown + NotificationChannel list" where
  "getEnabledChannels p ty =
     (case preferences p ty of
        None \<Rightarrow> Inl (Error ''Cannot read properties of undefined (reading 'inApp')'')
      | Some typePrefs \<Rightarrow>
          Inr ((if inApp typePrefs then [IN_APP] else [])
             @ (if push typePrefs then [PUSH] else [])
             @ (if websocket typePrefs then [WEBSOCKET] else [])))"

section \<open>NotificationDomainService\<close>

definition shouldSendToUser ::
  "'w env \<Rightarrow> Notification \<Rightarrow> UserPreferences \<Rightarrow> NotificationChannel \<Rightarrow> 'w \<Rightarrow> bool \<times> 'w" where
  "shouldSendToUser e n p channel w =
     (if priority n = URGENT then shouldReceiveNotification e p (ntype n) channel w
      else
        let (quiet, w1) = isQuietHours e p w
        in if quiet then (False, w1)
           else shouldReceiveNotification e p (ntype n) channel w1)"


section \<open>Notification entity methods\<close>

definition markAsRead :: "'w env \<Rightarrow> Notification \<Rightarrow> 'w \<Rightarrow> Notification \<times> 'w" where
  "markAsRead e n w =
     (if \<not> isRead n
      then let (now, w1) = newDate e w in (n\<lparr>isRead := True, readAt := Some now\<rparr>, w1)
      else (n, w))"

definition isExpired :: "'w env \<Rightarrow> Notification \<Rightarrow> 'w \<Rightarrow> bool \<times> 'w" where
  "isExpired e n w =
     (case expiresAt n of
        None \<Rightarrow> (False, w)
      | Some ex \<Rightarrow> let (now, w1) = newDate e w in (now > ex, w1))"

section \<open>NotificationDomainService: validation, expiry\<close>

text \<open>\<open>String.prototype.trim\<close> on code units below 256: the white space and line terminators.\<close>

definition isWhiteSpace :: "char \<Rightarrow> bool" where
  "isWhiteSpace c = ((of_char c :: nat) \<in> {9, 10, 11, 12, 13, 32, 160})"

definition trim :: "string \<Rightarrow> string" where
  "trim s = rev (dropWhile isWhiteSpace (rev (dropWhile isWhiteSpace s)))"

text \<open>The checks in the order of the source; the clock is read only when an expiry is set.\<close>

definition validateNotification :: "'w env \<Rightarrow> Notification \<Rightarrow> 'w \<Rightarrow> (Thrown + unit) \<times> 'w" where
  "validateNotification e n w =
     (if userId n = [] \<or> trim (userId n) = [] then (Inl (Error ''User ID is required''), w)
      else if title n = [] \<or> trim (title n) = []
        then (Inl (Error ''Notification title is required''), w)
      else if message n = [] \<or> trim (message n) = []
        then (Inl (Error ''Notification message is required''), w)
      else if length (title n) > 100
        then (Inl (Error ''Notification title cannot exceed 100 characters''), w)
      else if length (message n) > 500
        then (Inl (Error ''Notification message cannot exceed 500 characters''), w)
      else if length (channels n) = 0
        then (Inl (Error ''At least one notification channel is required''), w)
      else
        let (late, w1) = (case expiresAt n of
                            None \<Rightarrow> (False, w)
                          | Some ex \<Rightarrow> let (now, w') = newDate e w in (ex \<le> now, w'))
        in if late then (Inl (Error ''Expiration date must be in the future''), w1)
           else (case actions n of
                   None \<Rightarrow> (Inr (), w1)
                 | Some as \<Rightarrow>
                     if length as > 3
                     then (Inl (Error ''Maximum 3 actions allowed per notification''), w1)
                     else (Inr (), w1)))"

text \<open>
  \<open>Array.prototype.filter\<close> with the callback \<open>n => !n.isExpired()\<close>: the elements are
  visited in order, each call of \<open>isExpired\<close> reads the clock for itself, and the
  elements kept go to a new array.
\<close>

fun filter_notExpired :: "'w env \<Rightarrow> Notification list \<Rightarrow> 'w \<Rightarrow> Notification list \<times> 'w" where
  "filter_notExpired e [] w = ([], w)"
| "filter_notExpired e (n # ns) w =
     (let (ex, w1) = isExpired e n w;
          (kept, w2) = filter_notExpired e ns w1
      in (if \<not> ex then n # kept else kept, w2))"

text \<open>
  \<open>filterExpired\<close> returns the new array together with the argument array as the call
  leaves it: neither \<open>filter\<close> nor \<open>isExpired\<close> writes to it.
\<close>

record filterExpiredResult =
  returned :: "Notification list"
  argument_after :: "Notification list"

definition filterExpired ::
  "'w env \<Rightarrow> Notification list \<Rightarrow> 'w \<Rightarrow> filterExpiredResult \<times> 'w" where
  "filterExpired e notifications w =
     (let (kept, w1) = filter_notExpired e notifications w
      in (\<lparr>returned = kept, argument_after = notifications\<rparr>, w1))"

text \<open>
  \<open>date.setDate(date.getDate() + daysFromNow)\<close> works on the local time value of the
  date: \<open>setDate(dt)\<close> stores \<open>UTC(MakeDate(MakeDay(year, month, dt), TimeWithinDay(t)))\<close>
  for \<open>t = LocalTime(date)\<close>, and with \<open>dt = getDate() + daysFromNow\<close> the day
  \<open>MakeDay(year, month, dt)\<close> is \<open>Day(t) + daysFromNow\<close>. So the local time value moves
  by \<open>daysFromNow\<close> days of 86 400 000 ms, the local time of day is kept, and the result is
  taken back to UTC with the offset in force at the new local time. (Within the range of
  valid dates, where \<open>TimeClip\<close> changes nothing.)
\<close>

definition calculateExpiryDate :: "'w env \<Rightarrow> int \<Rightarrow> 'w \<Rightarrow> int \<times> 'w" where
  "calculateExpiryDate e daysFromNow w =
     (let (date, w1) = newDate e w;
          t = LocalTime e date
      in (UTC e (t + daysFromNow * 86400000), w1))"

section \<open>Data transfer objects\<close>

record NotificationPayload =
  d_type :: NotificationType
  d_title :: string
  d_message :: string
  d_channels :: "NotificationChannel list option"
  d_priority :: "NotificationPriority option"
  d_metadata :: "(string \<times> string) list option"
  d_actions :: "NotificationAction list option"
  d_expiresAt :: "int option"
  d_imageUrl :: "string option"
  d_iconUrl :: "string option"


record BulkNotificationDTO = NotificationPayload +
  d_userIds :: "string list"

record NotificationResponseDTO =
  r_id :: string
  r_userId :: string
  r_type :: NotificationType
  r_title :: string
  r_message :: string
  r_channels :: "NotificationChannel list"
  r_priority :: NotificationPriority
  r_metadata :: "(string \<times> string) list option"
  r_actions :: "NotificationAction list option"
  r_expiresAt :: "int option"
  r_imageUrl :: "string option"
  r_iconUrl :: "string option"
  r_isRead :: bool
  r_readAt :: "int option"
  r_createdAt :: int
  r_deliveredAt :: "int option"

definition toResponseDTO :: "Notification \<Rightarrow> NotificationResponseDTO" where
  "toResponseDTO n =
     \<lparr>r_id = nid n, r_userId = userId n, r_type = ntype n, r_title = title n,
      r_message = message n, r_channels = channels n, r_priority = priority n,
      r_metadata = metadata n, r_actions = actions n, r_expiresAt = expiresAt n,
      r_imageUrl = imageUrl n, r_iconUrl = iconUrl n, r_isRead = isRead n,
      r_readAt = readAt n, r_createdAt = createdAt n, r_deliveredAt = deliveredAt n\<rparr>"

text \<open>\<open>error.statusCode || 500\<close>: an absent code and the code 0 are falsy.\<close>

definition statusOr500 :: "Thrown \<Rightarrow> nat" where
  "statusOr500 err = (case t_statusCode err of None \<Rightarrow> 500 | Some c \<Rightarrow> if c = 0 then 500 else c)"

section \<open>Use cases: CreateNotification, SendBulkNotifications, MarkAsRead\<close>

text \<open>
  The channel selection both creation paths start with:
  \<open>let channels = dto.channels || [ALL]\<close>, replaced by the recipient's enabled channels
  when a preferences record exists, that list is not empty and the caller gave no channels.
  An array, even an empty one, is truthy.
\<close>

definition selectChannels ::
  "'a NotificationPayload_scheme \<Rightarrow> UserPreferences option \<Rightarrow> Thrown + NotificationChannel list" where
  "selectChannels dto prefs =
     (let channels = (case d_channels dto of None \<Rightarrow> [ALL_CHANNELS] | Some cs \<Rightarrow> cs)
      in case prefs of
           None \<Rightarrow> Inr channels
         | Some p \<Rightarrow>
             (case getEnabledChannels p (d_type dto) of
                Inl err \<Rightarrow> Inl err
              | Inr enabledChannels \<Rightarrow>
                  if length enabledChannels > 0 \<and> d_channels dto = None
                  then Inr enabledChannels else Inr channels))"

text \<open>
  The expression \<open>new Notification(uuidv4(), userId, ..., dto.expiresAt ||
  calculateExpiryDate(30), ...)\<close>: the arguments are evaluated left to right, then the
  constructor's default \<open>createdAt = new Date()\<close>.
\<close>

definition newNotification ::
  "'w env \<Rightarrow> string \<Rightarrow> 'a NotificationPayload_scheme \<Rightarrow> NotificationChannel list \<Rightarrow> 'w
   \<Rightarrow> Notification \<times> 'w" where
  "newNotification e uid dto chans w =
     (let (i, w1) = uuidv4 e w;
          (ex, w2) = (case d_expiresAt dto of
                        Some x \<Rightarrow> (x, w1)
                      | None \<Rightarrow> calculateExpiryDate e 30 w1);
          (created, w3) = newDate e w2
      in (\<lparr>nid = i, userId = uid, ntype = d_type dto, title = d_title dto,
           message = d_message dto, channels = chans,
           priority = (case d_priority dto of None \<Rightarrow> NORMAL | Some pr \<Rightarrow> pr),
           metadata = d_metadata dto, actions = d_actions dto, expiresAt = Some ex,
           imageUrl = d_imageUrl dto, iconUrl = d_iconUrl dto, isRead = False,
           readAt = None, createdAt = created, deliveredAt = None, failedAt = None,
           errorMessage = None\<rparr>, w3))"

text \<open>Validation and persistence of a built notification, common to both paths.\<close>

definition validateAndSave ::
  "'w env \<Rightarrow> Notification \<Rightarrow> 'w \<Rightarrow> (Thrown + NotificationResponseDTO) \<times> 'w" where
  "validateAndSave e notification w =
     (let (v, w1) = validateNotification e notification w
      in case v of
           Inl err \<Rightarrow> (Inl err, w1)
         | Inr _ \<Rightarrow>
             (let (s, w2) = notif_save e notification w1
              in case s of
                   Inl err \<Rightarrow> (Inl err, w2)
                 | Inr saved \<Rightarrow> (Inr (toResponseDTO saved), w2)))"



text \<open>
  \<open>SendBulkNotifications.execute\<close>, one turn of the loop. The body of the \<open>try\<close> ends in
  one of three ways: a throw (\<open>Inl\<close>), the \<open>continue\<close> after pushing the failure
  ``User has disabled all channels for this type'' (\<open>Inr (Inl _)\<close>), or a response.
  The check \<open>channels.length === 0\<close> is inside \<open>if (preferences)\<close>.
\<close>

definition execute_try ::
  "'w env \<Rightarrow> BulkNotificationDTO \<Rightarrow> string \<Rightarrow> 'w
   \<Rightarrow> (Thrown + (string + NotificationResponseDTO)) \<times> 'w" where
  "execute_try e dto uid w =
     (let (r, w1) = prefs_findByUserId e uid w
      in case r of
           Inl err \<Rightarrow> (Inl err, w1)
         | Inr prefs \<Rightarrow>
             (case selectChannels dto prefs of
                Inl err \<Rightarrow> (Inl err, w1)
              | Inr chans \<Rightarrow>
                  if prefs \<noteq> None \<and> length chans = 0
                  then (Inr (Inl ''User has disabled all channels for this type''), w1)
                  else
                    (let (notification, w2) = newNotification e uid dto chans w1;
                         (res, w3) = validateAndSave e notification w2
                     in case res of
                          Inl err \<Rightarrow> (Inl err, w3)
                        | Inr dtoOut \<Rightarrow> (Inr (Inr dtoOut), w3))))"

text \<open>The turn with its \<open>catch\<close>: a failure message for the recipient, or a response.\<close>

definition execute_recipient ::
  "'w env \<Rightarrow> BulkNotificationDTO \<Rightarrow> string \<Rightarrow> 'w \<Rightarrow> (string + NotificationResponseDTO) \<times> 'w" where
  "execute_recipient e dto uid w =
     (case execute_try e dto uid w of
        (Inl err, w1) \<Rightarrow> (Inl (orElse (t_message err) ''Failed to create notification''), w1)
      | (Inr out, w1) \<Rightarrow> (out, w1))"

record BulkResult =
  successful :: "NotificationResponseDTO list"
  failed :: "(string \<times> string) list"

fun execute_loop ::
  "'w env \<Rightarrow> BulkNotificationDTO \<Rightarrow> string list \<Rightarrow> BulkResult \<Rightarrow> 'w \<Rightarrow> BulkResult \<times> 'w" where
  "execute_loop e dto [] acc w = (acc, w)"
| "execute_loop e dto (uid # rest) acc w =
     (case execute_recipient e dto uid w of
        (Inl err, w1) \<Rightarrow> execute_loop e dto rest (acc\<lparr>failed := failed acc @ [(uid, err)]\<rparr>) w1
      | (Inr res, w1) \<Rightarrow>
          execute_loop e dto rest (acc\<lparr>successful := successful acc @ [res]\<rparr>) w1)"

definition execute :: "'w env \<Rightarrow> BulkNotificationDTO \<Rightarrow> 'w \<Rightarrow> BulkResult \<times> 'w" where
  "execute e dto w = execute_loop e dto (d_userIds dto) \<lparr>successful = [], failed = []\<rparr> w"

text \<open>
  \<open>executeBatched\<close>: \<open>for (let i = 0; i < dto.userIds.length; i += batchSize)\<close> with
  \<open>batch = dto.userIds.slice(i, i + batchSize)\<close>. The batch size is a count; with a batch
  size of 0 the loop never ends, which is the value \<open>None\<close>.
\<close>

partial_function (option) executeBatched_loop ::
  "'w env \<Rightarrow> BulkNotificationDTO \<Rightarrow> nat \<Rightarrow> nat \<Rightarrow> BulkResult \<Rightarrow> 'w \<Rightarrow> (BulkResult \<times> 'w) option" where
  "executeBatched_loop e dto batchSize i acc w =
     (if i < length (d_userIds dto)
      then
        (case execute e (dto\<lparr>d_userIds := take batchSize (drop i (d_userIds dto))\<rparr>) w of
           (result, w1) \<Rightarrow>
             executeBatched_loop e dto batchSize (i + batchSize)
               \<lparr>successful = successful acc @ successful result,
                failed = failed acc @ failed result\<rparr> w1)
      else Some (acc, w))"

declare executeBatched_loop.simps [code]

definition executeBatched ::
  "'w env \<Rightarrow> BulkNotificationDTO \<Rightarrow> nat \<Rightarrow> 'w \<Rightarrow> (BulkResult \<times> 'w) option" where
  "executeBatched e dto batchSize w =
     executeBatched_loop e dto batchSize 0 \<lparr>successful = [], failed = []\<rparr> w"

text \<open>\<open>MarkAsRead.execute\<close>: the body of the \<open>try\<close>, then the \<open>catch\<close>.\<close>

definition MarkAsRead_try :: "'w env \<Rightarrow> string \<Rightarrow> string \<Rightarrow> 'w \<Rightarrow> (Thrown + unit) \<times> 'w" where
  "MarkAsRead_try e notificationId uid w =
     (let (r, w1) = notif_findById e notificationId w
      in case r of
           Inl err \<Rightarrow> (Inl err, w1)
         | Inr None \<Rightarrow> (Inl (AppError ''Notification not found'' 404), w1)
         | Inr (Some notification) \<Rightarrow>
             if userId notification \<noteq> uid
             then (Inl (AppError ''Unauthorized to mark this notification as read'' 403), w1)
             else if isRead notification then (Inr (), w1)
             else
               (let (notification', w2) = markAsRead e notification w1
                in notif_markAsRead e notificationId w2))"

definition MarkAsRead_execute :: "'w env \<Rightarrow> string \<Rightarrow> string \<Rightarrow> 'w \<Rightarrow> (Thrown + unit) \<times> 'w" where
  "MarkAsRead_execute e notificationId uid w =
     (case MarkAsRead_try e notificationId uid w of
        (Inl err, w1) \<Rightarrow>
          (Inl (AppError (orElse (t_message err) ''Failed to mark notification as read'')
                  (statusOr500 err)), w1)
      | (Inr u, w1) \<Rightarrow> (Inr u, w1))"


section \<open>PushSubscription (entities/PushSubscription.ts)\<close>

datatype DeviceType = WEB | ANDROID | IOS

record PushSubscription =
  s_id :: string
  s_userId :: string
  deviceType :: DeviceType
  endpoint :: string
  keys :: "(string \<times> string) option"
  fcmToken :: "string option"
  deviceInfo :: "(string option \<times> string option \<times> string option) option"
  isActive :: bool
  s_createdAt :: int
  lastUsedAt :: int
  failureCount :: nat
  lastFailureAt :: "int option"
  s_errorMessage :: "string option"

definition deactivate :: "PushSubscription \<Rightarrow> PushSubscription" where
  "deactivate s = s\<lparr>isActive := False\<rparr>"

definition activate :: "PushSubscription \<Rightarrow> PushSubscription" where
  "activate s = s\<lparr>isActive := True, failureCount := 0, s_errorMessage := None\<rparr>"

definition updateLastUsed :: "'w env \<Rightarrow> PushSubscription \<Rightarrow> 'w \<Rightarrow> PushSubscription \<times> 'w" where
  "updateLastUsed e s w = (let (now, w1) = newDate e w in (s\<lparr>lastUsedAt := now\<rparr>, w1))"

definition recordFailure ::
  "'w env \<Rightarrow> string \<Rightarrow> PushSubscription \<Rightarrow> 'w \<Rightarrow> PushSubscription \<times> 'w" where
  "recordFailure e err s w =
     (let s1 = s\<lparr>failureCount := failureCount s + 1\<rparr>;
          (now, w1) = newDate e w;
          s2 = s1\<lparr>lastFailureAt := Some now, s_errorMessage := Some err\<rparr>
      in (if failureCount s2 \<ge> 3 then deactivate s2 else s2, w1))"

definition recordSuccess :: "'w env \<Rightarrow> PushSubscription \<Rightarrow> 'w \<Rightarrow> PushSubscription \<times> 'w" where
  "recordSuccess e s w =
     updateLastUsed e (s\<lparr>failureCount := 0, s_errorMessage := None\<rparr>) w"

definition isWebPush :: "PushSubscription \<Rightarrow> bool" where
  "isWebPush s = (deviceType s = WEB \<and> keys s \<noteq> None)"

text \<open>\<open>!!this.fcmToken\<close>: an absent token and the empty token are falsy.\<close>

definition isFCM :: "PushSubscription \<Rightarrow> bool" where
  "isFCM s =
     ((deviceType s = ANDROID \<or> deviceType s = IOS)
      \<and> (case fcmToken s of None \<Rightarrow> False | Some t \<Rightarrow> t \<noteq> []))"

section \<open>Push providers and the push queue (infrastructure/push)\<close>

text \<open>
  What the push libraries and the subscription repository answer is part of the
  environment. A rejection of \<open>webpush.sendNotification\<close> carries a status code and a
  message; a response of \<open>sendEachForMulticast\<close> carries a success flag and, on failure,
  an error with a code and a message.
\<close>

record SendResponse =
  success :: bool
  error_code :: "string option"
  error_message :: "string option"

record 'w pushEnv =
  sub_findActiveByUserId :: "string \<Rightarrow> 'w \<Rightarrow> (Thrown + PushSubscription list) \<times> 'w"
  sub_update :: "PushSubscription \<Rightarrow> 'w \<Rightarrow> (Thrown + unit) \<times> 'w"
  webpush_sendNotification :: "PushSubscription \<Rightarrow> 'w \<Rightarrow> Thrown option \<times> 'w"
  fcm_sendEachForMulticast :: "string list \<Rightarrow> 'w \<Rightarrow> (Thrown + SendResponse list) \<times> 'w"

record BatchSendResult =
  b_successful :: "string list"
  b_failed :: "(string \<times> string) list"

text \<open>\<open>WebPushProvider.send\<close>; the payload's \<open>timestamp: Date.now()\<close> reads the clock.\<close>

definition WebPush_send ::
  "'w env \<Rightarrow> 'w pushEnv \<Rightarrow> PushSubscription \<Rightarrow> 'w \<Rightarrow> (Thrown + unit) \<times> 'w" where
  "WebPush_send e pe subscription w =
     (if \<not> isWebPush subscription
        then (Inl (Error ''Subscription is not a Web Push subscription''), w)
      else if \<not> isActive subscription then (Inl (Error ''Subscription is not active''), w)
      else
        let (timestamp, w1) = newDate e w;
            (r, w2) = webpush_sendNotification pe subscription w1
        in case r of
             None \<Rightarrow> (Inr (), w2)
           | Some err \<Rightarrow>
               if t_statusCode err = Some 410 \<or> t_statusCode err = Some 404
                 then (Inl (Error ''SUBSCRIPTION_EXPIRED''), w2)
               else if t_statusCode err = Some 401 then (Inl (Error ''INVALID_VAPID_KEYS''), w2)
               else (Inl (Error (orElse (t_message err)
                                   ''Failed to send Web Push notification'')), w2))"

text \<open>
  \<open>WebPushProvider.sendBatch\<close>: one \<open>send\<close> per subscription, each with its own
  \<open>try\<close>/\<open>catch\<close>. The sends are started in the order of the array; the source
  pushes each result when its send settles, and the model takes the results in the order
  of the array too.
\<close>

fun WebPush_sendBatch_loop ::
  "'w env \<Rightarrow> 'w pushEnv \<Rightarrow> PushSubscription list \<Rightarrow> BatchSendResult \<Rightarrow> 'w
   \<Rightarrow> BatchSendResult \<times> 'w" where
  "WebPush_sendBatch_loop e pe [] acc w = (acc, w)"
| "WebPush_sendBatch_loop e pe (subscription # rest) acc w =
     (case WebPush_send e pe subscription w of
        (Inr u, w1) \<Rightarrow>
          WebPush_sendBatch_loop e pe rest
            (acc\<lparr>b_successful := b_successful acc @ [s_id subscription]\<rparr>) w1
      | (Inl err, w1) \<Rightarrow>
          WebPush_sendBatch_loop e pe rest
            (acc\<lparr>b_failed := b_failed acc
                     @ [(s_id subscription, orElse (t_message err) ''Unknown error'')]\<rparr>) w1)"

definition WebPush_sendBatch ::
  "'w env \<Rightarrow> 'w pushEnv \<Rightarrow> PushSubscription list \<Rightarrow> 'w \<Rightarrow> BatchSendResult \<times> 'w" where
  "WebPush_sendBatch e pe subscriptions w =
     WebPush_sendBatch_loop e pe subscriptions \<lparr>b_successful = [], b_failed = []\<rparr> w"

text \<open>
  \<open>FCMProvider.sendBatch\<close>. The callback of \<open>responses.forEach\<close> reads
  \<open>subscriptions[index]\<close>; past the end of the array that is \<open>undefined\<close> and reading its
  \<open>id\<close> throws inside the \<open>try\<close>, with the entries pushed so far kept.
\<close>

fun FCM_forEach ::
  "PushSubscription list \<Rightarrow> SendResponse list \<Rightarrow> nat \<Rightarrow> BatchSendResult
   \<Rightarrow> Thrown option \<times> BatchSendResult" where
  "FCM_forEach subscriptions [] index acc = (None, acc)"
| "FCM_forEach subscriptions (res # rest) index acc =
     (if index < length subscriptions
      then
        (let subscription = subscriptions ! index
         in if success res
            then FCM_forEach subscriptions rest (index + 1)
                   (acc\<lparr>b_successful := b_successful acc @ [s_id subscription]\<rparr>)
            else FCM_forEach subscriptions rest (index + 1)
                   (acc\<lparr>b_failed := b_failed acc
                          @ [(s_id subscription, orElse (error_message res) ''Unknown error'')]\<rparr>))
      else (Some (Error ''Cannot read properties of undefined (reading 'id')''), acc))"

definition FCM_sendBatch ::
  "'w pushEnv \<Rightarrow> PushSubscription list \<Rightarrow> 'w \<Rightarrow> BatchSendResult \<times> 'w" where
  "FCM_sendBatch pe subscriptions w =
     (let tokens = map (\<lambda>s. case fcmToken s of None \<Rightarrow> [] | Some t \<Rightarrow> t)
                     (filter (\<lambda>s. isFCM s \<and> isActive s) subscriptions)
      in if length tokens = 0 then (\<lparr>b_successful = [], b_failed = []\<rparr>, w)
         else
           let (r, w1) = fcm_sendEachForMulticast pe tokens w;
               (thrown, acc) =
                 (case r of
                    Inl err \<Rightarrow> (Some err, \<lparr>b_successful = [], b_failed = []\<rparr>)
                  | Inr responses \<Rightarrow>
                      FCM_forEach subscriptions responses 0 \<lparr>b_successful = [], b_failed = []\<rparr>)
           in case thrown of
                None \<Rightarrow> (acc, w1)
              | Some err \<Rightarrow>
                  (acc\<lparr>b_failed := b_failed acc
                         @ map (\<lambda>sub. (s_id sub, orElse (t_message err) ''Batch send failed''))
                             subscriptions\<rparr>, w1))"

text \<open>
  \<open>PushNotificationQueue.processJob\<close>. The subscriptions found are objects shared by the
  arrays \<open>subscriptions\<close>, \<open>webPushSubs\<close> and \<open>fcmSubs\<close>; the list \<open>subscriptions\<close>
  carries their current state, and \<open>subscriptions.find(s => s.id === subId)\<close> is the first
  position with that id. A rejected repository update ends the job with that error.
\<close>

fun findIndexById :: "string \<Rightarrow> PushSubscription list \<Rightarrow> nat option" where
  "findIndexById subId [] = None"
| "findIndexById subId (s # rest) =
     (if s_id s = subId then Some 0 else map_option Suc (findIndexById subId rest))"

fun updateSuccessful ::
  "'w env \<Rightarrow> 'w pushEnv \<Rightarrow> string list \<Rightarrow> PushSubscription list \<Rightarrow> 'w
   \<Rightarrow> (Thrown + PushSubscription list) \<times> 'w" where
  "updateSuccessful e pe [] subscriptions w = (Inr subscriptions, w)"
| "updateSuccessful e pe (subId # rest) subscriptions w =
     (case findIndexById subId subscriptions of
        None \<Rightarrow> updateSuccessful e pe rest subscriptions w
      | Some i \<Rightarrow>
          (let (sub, w1) = recordSuccess e (subscriptions ! i) w;
               (r, w2) = sub_update pe sub w1
           in case r of
                Inl err \<Rightarrow> (Inl err, w2)
              | Inr u \<Rightarrow> updateSuccessful e pe rest (subscriptions[i := sub]) w2))"

text \<open>What the loop over \<open>failed\<close> does to the subscription it finds.\<close>

definition onFailed ::
  "'w env \<Rightarrow> string \<Rightarrow> PushSubscription \<Rightarrow> 'w \<Rightarrow> PushSubscription \<times> 'w" where
  "onFailed e err sub w =
     (if err = ''SUBSCRIPTION_EXPIRED'' then (deactivate sub, w)
      else recordFailure e err sub w)"

fun updateFailed ::
  "'w env \<Rightarrow> 'w pushEnv \<Rightarrow> (string \<times> string) list \<Rightarrow> PushSubscription list \<Rightarrow> 'w
   \<Rightarrow> (Thrown + PushSubscription list) \<times> 'w" where
  "updateFailed e pe [] subscriptions w = (Inr subscriptions, w)"
| "updateFailed e pe ((subId, err) # rest) subscriptions w =
     (case findIndexById subId subscriptions of
        None \<Rightarrow> updateFailed e pe rest subscriptions w
      | Some i \<Rightarrow>
          (let (sub, w1) = onFailed e err (subscriptions ! i) w;
               (r, w2) = sub_update pe sub w1
           in case r of
                Inl err' \<Rightarrow> (Inl err', w2)
              | Inr u \<Rightarrow> updateFailed e pe rest (subscriptions[i := sub]) w2))"

definition applyBatchResult ::
  "'w env \<Rightarrow> 'w pushEnv \<Rightarrow> BatchSendResult \<Rightarrow> PushSubscription list \<Rightarrow> 'w
   \<Rightarrow> (Thrown + PushSubscription list) \<times> 'w" where
  "applyBatchResult e pe result subscriptions w =
     (case updateSuccessful e pe (b_successful result) subscriptions w of
        (Inl err, w1) \<Rightarrow> (Inl err, w1)
      | (Inr subs1, w1) \<Rightarrow> updateFailed e pe (b_failed result) subs1 w1)"

definition processJob ::
  "'w env \<Rightarrow> 'w pushEnv \<Rightarrow> string \<Rightarrow> 'w \<Rightarrow> (Thrown + unit) \<times> 'w" where
  "processJob e pe uid w =
     (let (found, w1) = sub_findActiveByUserId pe uid w
      in case found of
           Inl err \<Rightarrow> (Inl err, w1)
         | Inr subscriptions \<Rightarrow>
             if length subscriptions = 0 then (Inr (), w1)
             else
               let (r1, w2) =
                     (if length (filter isWebPush subscriptions) > 0
                      then (let (webResult, wa) =
                                  WebPush_sendBatch e pe (filter isWebPush subscriptions) w1
                            in applyBatchResult e pe webResult subscriptions wa)
                      else (Inr subscriptions, w1))
               in case r1 of
                    Inl err \<Rightarrow> (Inl err, w2)
                  | Inr subs1 \<Rightarrow>
                      if length (filter isFCM subs1) > 0
                      then (let (fcmResult, wb) = FCM_sendBatch pe (filter isFCM subs1) w2
                            in case applyBatchResult e pe fcmResult subs1 wb of
                                 (Inl err, w3) \<Rightarrow> (Inl err, w3)
                               | (Inr subs2, w3) \<Rightarrow> (Inr (), w3))
                      else (Inr (), w2))"

section \<open>Presence (infrastructure/websocket/WebSocketManager.ts)\<close>

text \<open>
  The three maps of the manager. A \<open>Set\<close> of socket ids is a duplicate-free list in
  insertion order. Metadata is opaque; \<open>None\<close> is an absent (falsy) argument.
\<close>

record WebSocketManager =
  userConnections :: "string \<Rightarrow> string list option"
  socketUsers :: "string \<Rightarrow> string option"
  userMetadata :: "string \<Rightarrow> string option"

definition newManager :: WebSocketManager where
  "newManager = \<lparr>userConnections = (\<lambda>u. None), socketUsers = (\<lambda>c. None),
                 userMetadata = (\<lambda>u. None)\<rparr>"

definition set_add :: "string \<Rightarrow> string list \<Rightarrow> string list" where
  "set_add x xs = (if x \<in> set xs then xs else xs @ [x])"

definition addConnection ::
  "string \<Rightarrow> string \<Rightarrow> string option \<Rightarrow> WebSocketManager \<Rightarrow> WebSocketManager" where
  "addConnection socketId uid md m =
     (let sockets = (case userConnections m uid of None \<Rightarrow> [] | Some s \<Rightarrow> s);
          m1 = m\<lparr>userConnections := (userConnections m)(uid \<mapsto> set_add socketId sockets)\<rparr>;
          m2 = m1\<lparr>socketUsers := (socketUsers m1)(socketId \<mapsto> uid)\<rparr>
      in case md of
           None \<Rightarrow> m2
         | Some x \<Rightarrow> m2\<lparr>userMetadata := (userMetadata m2)(uid \<mapsto> x)\<rparr>)"

text \<open>\<open>if (userId)\<close>: an unknown socket and the empty user id are falsy.\<close>

definition removeConnection :: "string \<Rightarrow> WebSocketManager \<Rightarrow> WebSocketManager" where
  "removeConnection socketId m =
     (case socketUsers m socketId of
        None \<Rightarrow> m
      | Some uid \<Rightarrow>
          if uid = [] then m
          else
            let m1 =
                  (case userConnections m uid of
                     None \<Rightarrow> m
                   | Some sockets \<Rightarrow>
                       (let sockets' = removeAll socketId sockets
                        in if length sockets' = 0
                           then m\<lparr>userConnections := (userConnections m)(uid := None),
                                  userMetadata := (userMetadata m)(uid := None)\<rparr>
                           else m\<lparr>userConnections := (userConnections m)(uid \<mapsto> sockets')\<rparr>))
            in m1\<lparr>socketUsers := (socketUsers m1)(socketId := None)\<rparr>)"

definition isUserOnline :: "WebSocketManager \<Rightarrow> string \<Rightarrow> bool" where
  "isUserOnline m uid = (case userConnections m uid of Some sockets \<Rightarrow> length sockets > 0 | None \<Rightarrow> False)"

text \<open>Presence events as the socket handler issues them, and a run of them.\<close>

datatype PresenceEvent = Connect string string "string option" | Disconnect string

fun applyEvent :: "PresenceEvent \<Rightarrow> WebSocketManager \<Rightarrow> WebSocketManager" where
  "applyEvent (Connect c u md) m = addConnection c u md m"
| "applyEvent (Disconnect c) m = removeConnection c m"

definition runEvents :: "PresenceEvent list \<Rightarrow> WebSocketManager \<Rightarrow> WebSocketManager" where
  "runEvents evs m = fold applyEvent evs m"

section \<open>A concrete environment for evaluating the operations\<close>

text \<open>
  An in-memory world: a clock that stands still, a counter for fresh identifiers, the stored
  preferences, the recipients whose preference lookup is rejected, the stored notifications,
  the recipients whose writes the store rejects, the stored push subscriptions, and the
  answer the push libraries give to every send.
  The process runs on UTC.
\<close>

record testWorld =
  tw_clock :: int
  tw_counter :: nat
  tw_prefs :: "(string \<times> UserPreferences) list"
  tw_unreachable :: "string list"
  tw_saved :: "Notification list"
  tw_rejects :: "string list"
  tw_subs :: "PushSubscription list"
  tw_webAnswer :: "Thrown option"
  tw_fcmAnswer :: SendResponse

definition testEnv :: "testWorld env" where
  "testEnv =
     \<lparr>newDate = (\<lambda>w. (tw_clock w, w)),
      getTimezoneOffset = (\<lambda>t. 0),
      localTZA = (\<lambda>t. 0),
      uuidv4 = (\<lambda>w. (''id'' @ replicate (tw_counter w) (CHR ''i''), w\<lparr>tw_counter := tw_counter w + 1\<rparr>)),
      prefs_findByUserId = (\<lambda>u w. if u \<in> set (tw_unreachable w)
                                    then (Inl (Error ''lookup failed''), w)
                                    else (Inr (map_of (tw_prefs w) u), w)),
      notif_save = (\<lambda>n w. if userId n \<in> set (tw_rejects w) then (Inl (Error ''write failed''), w)
                            else (Inr n, w\<lparr>tw_saved := tw_saved w @ [n]\<rparr>)),
      notif_findById = (\<lambda>i w. (Inr (find (\<lambda>n. nid n = i) (tw_saved w)), w)),
      notif_markAsRead = (\<lambda>i w. (Inr (),
         w\<lparr>tw_saved := map (\<lambda>n. if nid n = i then n\<lparr>isRead := True, readAt := Some (tw_clock w)\<rparr> else n)
                            (tw_saved w)\<rparr>))\<rparr>"

definition testPushEnv :: "testWorld pushEnv" where
  "testPushEnv =
     \<lparr>sub_findActiveByUserId =
        (\<lambda>u w. (Inr (filter (\<lambda>s. s_userId s = u \<and> isActive s) (tw_subs w)), w)),
      sub_update =
        (\<lambda>s w. (Inr (), w\<lparr>tw_subs := map (\<lambda>x. if s_id x = s_id s then s else x) (tw_subs w)\<rparr>)),
      webpush_sendNotification = (\<lambda>s w. (tw_webAnswer w, w)),
      fcm_sendEachForMulticast = (\<lambda>tokens w. (Inr (map (\<lambda>t. tw_fcmAnswer w) tokens), w))\<rparr>"

text \<open>The same environment with a clock that reads \<open>t\<close> whatever the world.\<close>

definition fixedClock :: "int \<Rightarrow> testWorld env" where
  "fixedClock t = testEnv\<lparr>newDate := (\<lambda>w. (t, w))\<rparr>"


definition sendOk :: SendResponse where
  "sendOk = \<lparr>success = True, error_code = None, error_message = None\<rparr>"

definition worldAt :: "int \<Rightarrow> testWorld" where
  "worldAt t = \<lparr>tw_clock = t, tw_counter = 0, tw_prefs = [], tw_unreachable = [],
                 tw_saved = [], tw_rejects = [],
                 tw_subs = [], tw_webAnswer = None, tw_fcmAnswer = sendOk\<rparr>"

text \<open>A mobile subscription and a web subscription, active, with the given failure count.\<close>

definition mobileSub :: "nat \<Rightarrow> PushSubscription" where
  "mobileSub k =
     \<lparr>s_id = ''s-fcm'', s_userId = ''u1'', deviceType = ANDROID, endpoint = [],
      keys = None, fcmToken = Some ''token-1'', deviceInfo = None, isActive = True,
      s_createdAt = 0, lastUsedAt = 0, failureCount = k, lastFailureAt = None,
      s_errorMessage = None\<rparr>"

definition webSub :: "nat \<Rightarrow> PushSubscription" where
  "webSub k =
     \<lparr>s_id = ''s-web'', s_userId = ''u1'', deviceType = WEB,
      endpoint = ''https://push.example/ep'', keys = Some (''p256dh'', ''auth''),
      fcmToken = None, deviceInfo = None, isActive = True,
      s_createdAt = 0, lastUsedAt = 0, failureCount = k, lastFailureAt = None,
      s_errorMessage = None\<rparr>"

text \<open>Firebase's answer for a token that is no longer registered, and a web push 410.\<close>

definition fcmGone :: SendResponse where
  "fcmGone = \<lparr>success = False,
               error_code = Some ''messaging/registration-token-not-registered'',
               error_message = Some ''Requested entity was not found.''\<rparr>"

definition webGone :: Thrown where
  "webGone = \<lparr>t_message = Some ''Received unexpected response code'', t_statusCode = Some 410\<rparr>"

text \<open>A bulk request without channels, priority or expiry.\<close>

definition bulkOf :: "string list \<Rightarrow> BulkNotificationDTO" where
  "bulkOf ids =
     \<lparr>d_type = INFO, d_title = ''Hello'', d_message = ''World'', d_channels = None,
      d_priority = None, d_metadata = None, d_actions = None, d_expiresAt = None,
      d_imageUrl = None, d_iconUrl = None, d_userIds = ids\<rparr>"


definition quietOff :: QuietHours where
  "quietOff = \<lparr>enabled = False, startTime = ''22:00'', endTime = ''08:00'',
               timezone = ''America/Mexico_City''\<rparr>"

definition allChannels :: "bool \<Rightarrow> ChannelPreferences" where
  "allChannels b = \<lparr>inApp = b, push = b, websocket = b\<rparr>"

text \<open>Preferences with every channel of every type set to \<open>b\<close> and the given quiet hours.\<close>

definition prefsOf :: "string \<Rightarrow> bool \<Rightarrow> QuietHours \<Rightarrow> UserPreferences" where
  "prefsOf u b q =
     \<lparr>p_id = ''p-'' @ u, p_userId = u, preferences = (\<lambda>ty. Some (allChannels b)),
      quietHours = q, language = ''es'', soundEnabled = True, vibrationEnabled = True\<rparr>"

definition nightQuiet :: QuietHours where
  "nightQuiet = \<lparr>enabled = True, startTime = ''22:00'', endTime = ''08:00'',
                 timezone = ''America/Mexico_City''\<rparr>"

definition sampleNotification :: "NotificationPriority \<Rightarrow> int option \<Rightarrow> Notification" where
  "sampleNotification pr ex =
     \<lparr>nid = ''n1'', userId = ''u1'', ntype = INFO, title = ''t'', message = ''m'',
      channels = [ALL_CHANNELS], priority = pr, metadata = None, actions = None,
      expiresAt = ex, imageUrl = None, iconUrl = None, isRead = False, readAt = None,
      createdAt = 0, deliveredAt = None, failedAt = None, errorMessage = None\<rparr>"

section \<open>Definitions worded after the specification\<close>



text \<open>
  Bulk delivery as the specification words it: the per-recipient logic is applied to every
  id in turn, each from the world the previous one left, and gives one outcome per id; the
  successes and the failures are then collected from the outcomes.
\<close>

fun recipientOutcomes ::
  "'w env \<Rightarrow> BulkNotificationDTO \<Rightarrow> string list \<Rightarrow> 'w
   \<Rightarrow> (string \<times> (string + NotificationResponseDTO)) list \<times> 'w" where
  "recipientOutcomes e dto [] w = ([], w)"
| "recipientOutcomes e dto (uid # rest) w =
     (let (out, w1) = execute_recipient e dto uid w;
          (outs, w2) = recipientOutcomes e dto rest w1
      in ((uid, out) # outs, w2))"

fun successesOf :: "(string \<times> (string + NotificationResponseDTO)) list \<Rightarrow> NotificationResponseDTO list" where
  "successesOf [] = []"
| "successesOf ((uid, Inr res) # outs) = res # successesOf outs"
| "successesOf ((uid, Inl err) # outs) = successesOf outs"

fun failuresOf :: "(string \<times> (string + NotificationResponseDTO)) list \<Rightarrow> (string \<times> string) list" where
  "failuresOf [] = []"
| "failuresOf ((uid, Inr res) # outs) = failuresOf outs"
| "failuresOf ((uid, Inl err) # outs) = (uid, err) # failuresOf outs"

text \<open>
  Presence as the specification words it: the connections of a recipient that were
  registered and not since removed, read off the events alone.
\<close>

definition liveStep :: "string \<Rightarrow> PresenceEvent \<Rightarrow> string list \<Rightarrow> string list" where
  "liveStep uid ev live =
     (case ev of
        Connect c u md \<Rightarrow> if u = uid then set_add c live else live
      | Disconnect c \<Rightarrow> removeAll c live)"

definition liveConnections :: "PresenceEvent list \<Rightarrow> string \<Rightarrow> string list" where
  "liveConnections evs uid = fold (liveStep uid) evs []"

text \<open>
  A run of presence events in which no user id is empty and no socket is registered under
  a user while the manager still holds it for another one.
\<close>

fun singleOwner :: "WebSocketManager \<Rightarrow> PresenceEvent list \<Rightarrow> bool" where
  "singleOwner m [] = True"
| "singleOwner m (Connect c u md # evs) =
     (u \<noteq> [] \<and> (case socketUsers m c of None \<Rightarrow> True | Some u' \<Rightarrow> u' = u)
      \<and> singleOwner (addConnection c u md m) evs)"
| "singleOwner m (Disconnect c # evs) = singleOwner (removeConnection c m) evs"

text \<open>The manager's maps agree with the live connections \<open>L\<close> of every recipient.\<close>

definition presenceInv :: "WebSocketManager \<Rightarrow> (string \<Rightarrow> string list) \<Rightarrow> bool" where
  "presenceInv m L =
     ((\<forall>u. userConnections m u = (if L u = [] then None else Some (L u)))
      \<and> (\<forall>c u. (socketUsers m c = Some u) = (c \<in> set (L u)))
      \<and> (\<forall>u. distinct (L u))
      \<and> L [] = [])"


section \<open>Quiet hours\<close>

lemma timeMinutes_2200: "timeMinutes ''22:00'' = Some 1320"
  by (simp add: timeMinutes_def Number_def digit_val_def)

lemma timeMinutes_0800: "timeMinutes ''08:00'' = Some 480"
  by (simp add: timeMinutes_def Number_def digit_val_def)


lemma isQuietHours_enabled:
  assumes "enabled (quietHours p)"
    and "timeMinutes (startTime (quietHours p)) = Some s"
    and "timeMinutes (endTime (quietHours p)) = Some en"
  shows "isQuietHours e p w =
           (let now = getHours e (fst (newDate e w)) * 60 + getMinutes e (fst (newDate e w))
            in if s < en then s \<le> now \<and> now < en else s \<le> now \<or> now < en,
            snd (newDate e w))"
  using assms by (simp add: isQuietHours_def num_lt_def num_ge_def split_def Let_def)

lemma isQuietHours_night:
  "isQuietHours testEnv (prefsOf u b nightQuiet) (worldAt t) =
     (let now = getHours testEnv t * 60 + getMinutes testEnv t
      in 1320 \<le> now \<or> now < 480, worldAt t)"
proof -
  have "isQuietHours testEnv (prefsOf u b nightQuiet) (worldAt t) =
          (let now = getHours testEnv (fst (newDate testEnv (worldAt t))) * 60
                     + getMinutes testEnv (fst (newDate testEnv (worldAt t)))
           in if (1320::nat) < 480 then 1320 \<le> now \<and> now < 480 else 1320 \<le> now \<or> now < 480,
           snd (newDate testEnv (worldAt t)))"
    by (rule isQuietHours_enabled)
       (simp_all add: prefsOf_def nightQuiet_def timeMinutes_2200 timeMinutes_0800)
  then show ?thesis
    by (simp add: testEnv_def worldAt_def)
qed

lemma clock_2300: "getHours testEnv 82800000 * 60 + getMinutes testEnv 82800000 = 1380"
  by (simp add: getHours_def getMinutes_def localMinutes_def testEnv_def)

lemma clock_0900: "getHours testEnv 32400000 * 60 + getMinutes testEnv 32400000 = 540"
  by (simp add: getHours_def getMinutes_def localMinutes_def testEnv_def)






section \<open>Urgent notifications and quiet hours\<close>

text \<open>
  Inside quiet hours \<open>shouldReceiveNotification\<close> answers false whatever the flags, and
  the urgent branch of \<open>shouldSendToUser\<close> is that answer.
\<close>

lemma shouldReceiveNotification_quiet:
  "fst (isQuietHours e p w) \<Longrightarrow> fst (shouldReceiveNotification e p ty channel w) = False"
  by (simp add: shouldReceiveNotification_def split_def)

lemma shouldSendToUser_urgent_quiet:
  "priority n = URGENT \<Longrightarrow> fst (isQuietHours e p w)
   \<Longrightarrow> fst (shouldSendToUser e n p channel w) = False"
  by (simp add: shouldSendToUser_def shouldReceiveNotification_quiet)

text \<open>
  Claim C1 on the code. An \<open>URGENT\<close> notification for a recipient whose channels are all
  enabled and whose quiet hours are 22:00-08:00: at 23:00 \<open>shouldSendToUser\<close> answers false,
  at 09:00 it answers true. The urgent branch calls \<open>shouldReceiveNotification\<close>, which
  checks quiet hours itself, so quiet hours are not bypassed and the result is not the
  enablement flag.
\<close>

theorem shouldSendToUser_urgent_in_quiet_hours:
  "fst (shouldSendToUser testEnv (sampleNotification URGENT None)
          (prefsOf ''u1'' True nightQuiet) IN_APP (worldAt 82800000)) = False
   \<and> fst (shouldSendToUser testEnv (sampleNotification URGENT None)
          (prefsOf ''u1'' True nightQuiet) IN_APP (worldAt 32400000)) = True
   \<and> map_option (\<lambda>c. channelFlag c IN_APP)
        (preferences (prefsOf ''u1'' True nightQuiet) (ntype (sampleNotification URGENT None)))
      = Some True"
  by (simp add: shouldSendToUser_def shouldReceiveNotification_def isQuietHours_night
      clock_2300 clock_0900 sampleNotification_def)
    (simp add: prefsOf_def allChannels_def channelFlag_def)

section \<open>Marking as read\<close>

lemma markAsRead_read: "isRead n \<Longrightarrow> markAsRead e n w = (n, w)"
  by (simp add: markAsRead_def)

lemma MarkAsRead_try_read:
  assumes "notif_findById e i w = (Inr (Some n), w1)" and "userId n = uid" and "isRead n"
  shows "MarkAsRead_try e i uid w = (Inr (), w1)"
  using assms by (simp add: MarkAsRead_try_def)

text \<open>
  Claim C9. When the repository finds a notification that belongs to the caller and is
  already read, \<open>MarkAsRead.execute\<close> succeeds and leaves the world as the lookup left it;
  the outcome is the same whatever \<open>markAsRead\<close> of the repository would do, so it is
  not called. The entity's own \<open>markAsRead\<close> returns a read notification unchanged,
  \<open>readAt\<close> included, without reading the clock.
\<close>

theorem MarkAsRead_idempotent:
  assumes "notif_findById e i w = (Inr (Some n), w1)" and "userId n = uid" and "isRead n"
  shows "MarkAsRead_execute e i uid w = (Inr (), w1)
         \<and> MarkAsRead_execute (e\<lparr>notif_markAsRead := f\<rparr>) i uid w = (Inr (), w1)
         \<and> markAsRead e n w' = (n, w')"
proof -
  have a: "MarkAsRead_try e i uid w = (Inr (), w1)"
    using assms by (rule MarkAsRead_try_read)
  have "notif_findById (e\<lparr>notif_markAsRead := f\<rparr>) i w = (Inr (Some n), w1)"
    using assms(1) by simp
  then have b: "MarkAsRead_try (e\<lparr>notif_markAsRead := f\<rparr>) i uid w = (Inr (), w1)"
    using assms(2,3) by (rule MarkAsRead_try_read)
  from a b markAsRead_read [OF assms(3)] show ?thesis
    by (simp add: MarkAsRead_execute_def)
qed

text \<open>
  Witness for C9: a stored notification of \<open>u1\<close>, read at instant 7; marking it again at
  instant 100 succeeds and the stored \<open>readAt\<close> is still 7.
\<close>

theorem MarkAsRead_idempotent_witness:
  "MarkAsRead_execute testEnv ''n1'' ''u1''
     ((worldAt 100)\<lparr>tw_saved := [(sampleNotification NORMAL None)\<lparr>isRead := True, readAt := Some 7\<rparr>]\<rparr>)
   = (Inr (), (worldAt 100)\<lparr>tw_saved := [(sampleNotification NORMAL None)\<lparr>isRead := True, readAt := Some 7\<rparr>]\<rparr>)"
proof -
  let ?n = "(sampleNotification NORMAL None)\<lparr>isRead := True, readAt := Some 7\<rparr>"
  let ?w = "(worldAt 100)\<lparr>tw_saved := [?n]\<rparr>"
  have f: "notif_findById testEnv ''n1'' ?w = (Inr (Some ?n), ?w)"
    by (simp add: testEnv_def sampleNotification_def)
  have u: "userId ?n = ''u1''"
    by (simp add: sampleNotification_def)
  have r: "isRead ?n"
    by simp
  from MarkAsRead_idempotent [OF f u r] show ?thesis
    by simp
qed

section \<open>Expired notifications\<close>

lemma isExpired_fixed_clock:
  assumes "\<forall>w. fst (newDate e w) = t"
  shows "fst (isExpired e n w) = (case expiresAt n of None \<Rightarrow> False | Some ex \<Rightarrow> t > ex)"
  using assms by (simp add: isExpired_def split_def split: option.splits)

lemma filter_notExpired_fixed_clock:
  assumes "\<forall>w. fst (newDate e w) = t"
  shows "fst (filter_notExpired e ns w) =
           filter (\<lambda>n. case expiresAt n of None \<Rightarrow> True | Some ex \<Rightarrow> t \<le> ex) ns"
proof (induction ns arbitrary: w)
  case Nil
  show ?case by simp
next
  case (Cons n ns)
  have "fst (isExpired e n w) = (case expiresAt n of None \<Rightarrow> False | Some ex \<Rightarrow> t > ex)"
    using assms by (rule isExpired_fixed_clock)
  with Cons show ?case
    by (simp add: split_def not_less split: option.splits)
qed

text \<open>
  Claim C5, as the code has it. With the clock reading \<open>t\<close> throughout the call,
  \<open>filterExpired\<close> returns, in their order, exactly the notifications that have no expiry
  or whose expiry is at or after \<open>t\<close>: a notification is excluded iff its expiry is
  strictly before the evaluation instant. The argument array is left as it was.
\<close>

theorem filterExpired_strictly_before:
  assumes "\<forall>w. fst (newDate e w) = t"
  shows "returned (fst (filterExpired e ns w)) =
           filter (\<lambda>n. case expiresAt n of None \<Rightarrow> True | Some ex \<Rightarrow> t \<le> ex) ns
         \<and> argument_after (fst (filterExpired e ns w)) = ns"
  using filter_notExpired_fixed_clock [OF assms, of ns w]
  by (simp add: filterExpired_def split_def)

text \<open>
  Witness for C5: at instant 1000, of the notifications expiring at 999, at 1000, at 3601000
  and never, the first is excluded and the other three are returned.
\<close>

theorem filterExpired_strictly_before_witness:
  "(\<forall>w. fst (newDate (fixedClock 1000) w) = 1000)
   \<and> returned (fst (filterExpired (fixedClock 1000)
       [sampleNotification NORMAL (Some 999), sampleNotification LOW (Some 1000),
        sampleNotification HIGH (Some 3601000), sampleNotification URGENT None] (worldAt 0)))
   = [sampleNotification LOW (Some 1000), sampleNotification HIGH (Some 3601000),
      sampleNotification URGENT None]"
proof -
  have k: "\<forall>w. fst (newDate (fixedClock 1000) w) = 1000"
    by (simp add: fixedClock_def)
  from k filterExpired_strictly_before [OF k, of _ "worldAt 0"] show ?thesis
    by (simp add: sampleNotification_def)
qed

text \<open>
  Counterexample for C5 as stated: a notification whose expiry is the evaluation instant
  itself (``at or before'') is retained, since \<open>isExpired\<close> tests \<open>new Date() > expiresAt\<close>.
\<close>

theorem filterExpired_at_instant_counterexample:
  "fst (newDate testEnv (worldAt 1000)) = 1000
   \<and> expiresAt (sampleNotification NORMAL (Some 1000)) = Some 1000
   \<and> returned (fst (filterExpired testEnv [sampleNotification NORMAL (Some 1000)] (worldAt 1000)))
       = [sampleNotification NORMAL (Some 1000)]"
  by (simp add: filterExpired_def isExpired_def testEnv_def worldAt_def sampleNotification_def)

section \<open>Bulk delivery to a recipient who disabled every channel\<close>

text \<open>
  With a preferences record, no enabled channel and no channels in the request, the
  selection is the default \<open>[ALL]\<close>, never the empty list.
\<close>

lemma selectChannels_none_enabled:
  "getEnabledChannels p (d_type dto) = Inr [] \<Longrightarrow> d_channels dto = None
   \<Longrightarrow> selectChannels dto (Some p) = Inr [ALL_CHANNELS]"
  by (simp add: selectChannels_def)

text \<open>
  Claim C2 on the code. Recipient \<open>c\<close> has a stored preferences record with every channel
  of type \<open>INFO\<close> disabled, so the enabled channels are empty; the request names no
  channels. The bulk \<open>execute\<close> reports no failure and creates the notification for \<open>c\<close>
  on the channel \<open>ALL\<close>: the selection keeps the default \<open>[ALL]\<close> when the enabled list is
  empty, so the check \<open>channels.length === 0\<close> does not fire.
\<close>

theorem execute_all_channels_disabled:
  "getEnabledChannels (prefsOf ''c'' False quietOff) INFO = Inr []
   \<and> d_channels (bulkOf [''c'']) = None
   \<and> failed (fst (execute testEnv (bulkOf [''c''])
        ((worldAt 5)\<lparr>tw_prefs := [(''c'', prefsOf ''c'' False quietOff)]\<rparr>))) = []
   \<and> map r_userId (successful (fst (execute testEnv (bulkOf [''c''])
        ((worldAt 5)\<lparr>tw_prefs := [(''c'', prefsOf ''c'' False quietOff)]\<rparr>)))) = [''c'']
   \<and> map r_channels (successful (fst (execute testEnv (bulkOf [''c''])
        ((worldAt 5)\<lparr>tw_prefs := [(''c'', prefsOf ''c'' False quietOff)]\<rparr>)))) = [[ALL_CHANNELS]]"
  by code_simp

section \<open>Bulk delivery: isolation of recipients and batching\<close>

lemma successesOf_append: "successesOf (xs @ ys) = successesOf xs @ successesOf ys"
  by (induction xs rule: successesOf.induct) simp_all

lemma failuresOf_append: "failuresOf (xs @ ys) = failuresOf xs @ failuresOf ys"
  by (induction xs rule: failuresOf.induct) simp_all

lemma outcomes_length:
  "length (successesOf outs) + length (failuresOf outs) = length outs"
  by (induction outs rule: successesOf.induct) simp_all

lemma recipientOutcomes_ids: "map fst (fst (recipientOutcomes e dto ids w)) = ids"
  by (induction ids arbitrary: w) (simp_all add: split_def Let_def)

lemma recipientOutcomes_append:
  "recipientOutcomes e dto (xs @ ys) w =
     (case recipientOutcomes e dto xs w of
        (o1, w1) \<Rightarrow> (case recipientOutcomes e dto ys w1 of (o2, w2) \<Rightarrow> (o1 @ o2, w2)))"
  by (induction xs arbitrary: w) (simp_all add: split_def Let_def)

lemma execute_loop_outcomes:
  "execute_loop e dto ids acc w =
     (\<lparr>successful = successful acc @ successesOf (fst (recipientOutcomes e dto ids w)),
       failed = failed acc @ failuresOf (fst (recipientOutcomes e dto ids w))\<rparr>,
      snd (recipientOutcomes e dto ids w))"
proof (induction ids arbitrary: acc w)
  case Nil
  show ?case by simp
next
  case (Cons u us)
  obtain out w1 where r: "execute_recipient e dto u w = (out, w1)"
    by (cases "execute_recipient e dto u w")
  show ?case
  proof (cases out)
    case (Inl err)
    with r Cons [of "acc\<lparr>failed := failed acc @ [(u, err)]\<rparr>" w1] show ?thesis
      by (simp add: split_def Let_def)
  next
    case (Inr res)
    with r Cons [of "acc\<lparr>successful := successful acc @ [res]\<rparr>" w1] show ?thesis
      by (simp add: split_def Let_def)
  qed
qed

lemma selectChannels_ids:
  "selectChannels (dto\<lparr>d_userIds := x\<rparr>) = selectChannels dto"
  by (rule ext) (simp add: selectChannels_def cong: option.case_cong sum.case_cong)

lemma newNotification_ids:
  "newNotification e uid (dto\<lparr>d_userIds := x\<rparr>) = newNotification e uid dto"
  by (intro ext) (simp add: newNotification_def cong: option.case_cong prod.case_cong)

lemma execute_try_ids:
  "execute_try e (dto\<lparr>d_userIds := x\<rparr>) uid w = execute_try e dto uid w"
  unfolding execute_try_def selectChannels_ids newNotification_ids by (rule refl)

lemma execute_recipient_ids:
  "execute_recipient e (dto\<lparr>d_userIds := x\<rparr>) uid w = execute_recipient e dto uid w"
  by (simp add: execute_recipient_def execute_try_ids)

lemma recipientOutcomes_ids_irrelevant:
  "recipientOutcomes e (dto\<lparr>d_userIds := x\<rparr>) ids w = recipientOutcomes e dto ids w"
  by (induction ids arbitrary: w) (simp_all add: execute_recipient_ids)

lemma execute_outcomes:
  "execute e (dto\<lparr>d_userIds := ids\<rparr>) w =
     (\<lparr>successful = successesOf (fst (recipientOutcomes e dto ids w)),
       failed = failuresOf (fst (recipientOutcomes e dto ids w))\<rparr>,
      snd (recipientOutcomes e dto ids w))"
  by (simp add: execute_def execute_loop_outcomes recipientOutcomes_ids_irrelevant)

lemma executeBatched_loop_outcomes:
  assumes "0 < b"
  shows "executeBatched_loop e dto b i acc w =
           Some (execute_loop e dto (drop i (d_userIds dto)) acc w)"
proof (induction "length (d_userIds dto) - i" arbitrary: i acc w rule: less_induct)
  case less
  show ?case
  proof (cases "i < length (d_userIds dto)")
    case False
    then show ?thesis
      by (subst executeBatched_loop.simps) simp
  next
    case True
    let ?ids = "d_userIds dto"
    let ?batch = "take b (drop i ?ids)"
    have lt: "length ?ids - (i + b) < length ?ids - i"
      using True assms by arith
    have split: "drop i ?ids = ?batch @ drop (i + b) ?ids"
      by (metis append_take_drop_id drop_drop add.commute)
    obtain o1 w1 where o1: "recipientOutcomes e dto ?batch w = (o1, w1)"
      by (cases "recipientOutcomes e dto ?batch w")
    have step: "executeBatched_loop e dto b i acc w =
            executeBatched_loop e dto b (i + b)
              \<lparr>successful = successful acc @ successesOf o1,
               failed = failed acc @ failuresOf o1\<rparr> w1"
      using True o1 by (subst executeBatched_loop.simps) (simp add: execute_outcomes)
    have "execute_loop e dto (drop i ?ids) acc w =
            execute_loop e dto (drop (i + b) ?ids)
              \<lparr>successful = successful acc @ successesOf o1,
               failed = failed acc @ failuresOf o1\<rparr> w1"
      apply (subst split)
      apply (simp add: execute_loop_outcomes recipientOutcomes_append o1 split_def
          successesOf_append failuresOf_append)
      done
    with step less [OF lt] show ?thesis
      by simp
  qed
qed

lemma newNotification_userId: "userId (fst (newNotification e uid dto chans w)) = uid"
  by (simp add: newNotification_def split_def Let_def)

lemma validateAndSave_userId:
  assumes "\<forall>n w s w'. notif_save e n w = (Inr s, w') \<longrightarrow> userId s = userId n"
    and "fst (validateAndSave e n w) = Inr r"
  shows "r_userId r = userId n"
proof -
  obtain v w1 where v: "validateNotification e n w = (v, w1)"
    by (cases "validateNotification e n w")
  obtain s w2 where s: "notif_save e n w1 = (s, w2)"
    by (cases "notif_save e n w1")
  from assms(2) v s obtain saved where "s = Inr saved" and "r = toResponseDTO saved"
    by (auto simp: validateAndSave_def split: sum.splits)
  with assms(1) s show ?thesis
    by (auto simp: toResponseDTO_def)
qed

lemma execute_recipient_userId:
  assumes "\<forall>n w s w'. notif_save e n w = (Inr s, w') \<longrightarrow> userId s = userId n"
    and "execute_recipient e dto uid w = (Inr r, w')"
  shows "r_userId r = uid"
proof -
  from assms(2) obtain chans w1 where
    "fst (validateAndSave e (fst (newNotification e uid dto chans w1))
       (snd (newNotification e uid dto chans w1))) = Inr r"
    by (auto simp: execute_recipient_def execute_try_def split_def Let_def
        split: sum.splits if_splits)
  from validateAndSave_userId [OF assms(1) this] show ?thesis
    by (simp add: newNotification_userId)
qed

lemma recipientOutcomes_keyed:
  assumes "\<forall>n w s w'. notif_save e n w = (Inr s, w') \<longrightarrow> userId s = userId n"
  shows "map r_userId (successesOf (fst (recipientOutcomes e dto ids w)))
           = map fst (filter (\<lambda>p. isl (snd p) = False) (fst (recipientOutcomes e dto ids w)))
         \<and> map fst (failuresOf (fst (recipientOutcomes e dto ids w)))
           = map fst (filter (\<lambda>p. isl (snd p)) (fst (recipientOutcomes e dto ids w)))"
proof (induction ids arbitrary: w)
  case Nil
  show ?case by simp
next
  case (Cons u us)
  obtain out w1 where r: "execute_recipient e dto u w = (out, w1)"
    by (cases "execute_recipient e dto u w")
  show ?case
  proof (cases out)
    case (Inl err)
    with r Cons [of w1] show ?thesis
      by (simp add: split_def Let_def)
  next
    case (Inr res)
    with r have "r_userId res = u"
      using execute_recipient_userId [OF assms] by blast
    with Inr r Cons [of w1] show ?thesis
      by (simp add: split_def Let_def)
  qed
qed

lemma mset_partition_keys:
  "mset (map fst (filter (\<lambda>p. isl (snd p) = False) outs) @ map fst (filter (\<lambda>p. isl (snd p)) outs))
     = mset (map fst outs)"
  by (induction outs) auto

lemma execute_keys:
  assumes "\<forall>n w s w'. notif_save e n w = (Inr s, w') \<longrightarrow> userId s = userId n"
  shows "mset (map r_userId (successful (fst (execute e dto w)))
               @ map fst (failed (fst (execute e dto w)))) = mset (d_userIds dto)"
proof -
  let ?outs = "fst (recipientOutcomes e dto (d_userIds dto) w)"
  have "mset (map r_userId (successesOf ?outs) @ map fst (failuresOf ?outs))
          = mset (map fst ?outs)"
    using recipientOutcomes_keyed [OF assms, of dto "d_userIds dto" w] mset_partition_keys [of ?outs]
    by simp
  then show ?thesis
    by (simp add: execute_def execute_loop_outcomes recipientOutcomes_ids)
qed

lemma execute_append:
  "execute e (dto\<lparr>d_userIds := xs @ ys\<rparr>) w =
     (case execute e (dto\<lparr>d_userIds := xs\<rparr>) w of
        (r1, w1) \<Rightarrow>
          (case execute e (dto\<lparr>d_userIds := ys\<rparr>) w1 of
             (r2, w2) \<Rightarrow>
               (\<lparr>successful = successful r1 @ successful r2,
                 failed = failed r1 @ failed r2\<rparr>, w2)))"
  by (simp add: execute_outcomes recipientOutcomes_append split_def
      successesOf_append failuresOf_append)

lemma execute_single:
  "execute e (dto\<lparr>d_userIds := [uid]\<rparr>) w =
     (case execute_recipient e dto uid w of
        (Inl msg, w1) \<Rightarrow> (\<lparr>successful = [], failed = [(uid, msg)]\<rparr>, w1)
      | (Inr res, w1) \<Rightarrow> (\<lparr>successful = [res], failed = []\<rparr>, w1))"
  by (simp add: execute_outcomes split_def Let_def split: sum.splits)

lemma execute_lookup_error:
  assumes "prefs_findByUserId e uid w = (Inl err, w1)"
  shows "execute e (dto\<lparr>d_userIds := [uid]\<rparr>) w =
           (\<lparr>successful = [],
             failed = [(uid, orElse (t_message err) ''Failed to create notification'')]\<rparr>, w1)"
  using assms by (simp add: execute_single execute_recipient_def execute_try_def)

lemma execute_channels_error:
  assumes "prefs_findByUserId e uid w = (Inr prefs, w1)"
    and "selectChannels dto prefs = Inl err"
  shows "execute e (dto\<lparr>d_userIds := [uid]\<rparr>) w =
           (\<lparr>successful = [],
             failed = [(uid, orElse (t_message err) ''Failed to create notification'')]\<rparr>, w1)"
  using assms by (simp add: execute_single execute_recipient_def execute_try_def)

lemma execute_validation_error:
  assumes "prefs_findByUserId e uid w = (Inr prefs, w1)"
    and "selectChannels dto prefs = Inr chans" and "prefs = None \<or> chans \<noteq> []"
    and "newNotification e uid dto chans w1 = (n, w2)"
    and "validateNotification e n w2 = (Inl err, w3)"
  shows "execute e (dto\<lparr>d_userIds := [uid]\<rparr>) w =
           (\<lparr>successful = [],
             failed = [(uid, orElse (t_message err) ''Failed to create notification'')]\<rparr>, w3)"
  using assms
  by (auto simp: execute_single execute_recipient_def execute_try_def validateAndSave_def)

lemma execute_persistence_error:
  assumes "prefs_findByUserId e uid w = (Inr prefs, w1)"
    and "selectChannels dto prefs = Inr chans" and "prefs = None \<or> chans \<noteq> []"
    and "newNotification e uid dto chans w1 = (n, w2)"
    and "validateNotification e n w2 = (Inr u, w3)"
    and "notif_save e n w3 = (Inl err, w4)"
  shows "execute e (dto\<lparr>d_userIds := [uid]\<rparr>) w =
           (\<lparr>successful = [],
             failed = [(uid, orElse (t_message err) ''Failed to create notification'')]\<rparr>, w4)"
  using assms
  by (auto simp: execute_single execute_recipient_def execute_try_def validateAndSave_def)

lemma execute_saved:
  assumes "prefs_findByUserId e uid w = (Inr prefs, w1)"
    and "selectChannels dto prefs = Inr chans" and "prefs = None \<or> chans \<noteq> []"
    and "newNotification e uid dto chans w1 = (n, w2)"
    and "validateNotification e n w2 = (Inr u, w3)"
    and "notif_save e n w3 = (Inr saved, w4)"
  shows "execute e (dto\<lparr>d_userIds := [uid]\<rparr>) w =
           (\<lparr>successful = [toResponseDTO saved], failed = []\<rparr>, w4)"
  using assms
  by (auto simp: execute_single execute_recipient_def execute_try_def validateAndSave_def)

lemma execute_entries:
  "fst (execute e dto w) =
      \<lparr>successful = successesOf (fst (recipientOutcomes e dto (d_userIds dto) w)),
       failed = failuresOf (fst (recipientOutcomes e dto (d_userIds dto) w))\<rparr>"
  by (simp add: execute_def execute_loop_outcomes)

lemma execute_count:
  "length (successful (fst (execute e dto w))) + length (failed (fst (execute e dto w)))
     = length (d_userIds dto)"
proof -
  have "length (fst (recipientOutcomes e dto (d_userIds dto) w)) = length (d_userIds dto)"
    using recipientOutcomes_ids [of e dto "d_userIds dto" w] by (metis length_map)
  then show ?thesis
    by (simp add: execute_def execute_loop_outcomes outcomes_length)
qed

text \<open>
  Claim C4, as the code has it. The result of the bulk \<open>execute\<close> is collected from one
  outcome per occurrence of an id in the input, in the order of the input, each outcome
  being that of the recipient's own turn from the world the previous turns left; so the two
  lists have as many entries as the input has ids, and delivering to \<open>xs @ ys\<close> is
  delivering to \<open>xs\<close> and then to \<open>ys\<close>: no recipient aborts or rewrites another's
  entry. A turn in which the preference lookup is rejected, the channel selection throws,
  validation throws or the store rejects the write ends as the failure entry of that
  recipient, with the error's message (or ``Failed to create notification''); a turn whose
  write the store accepts ends as the success entry made of what the store returned.
  When the store resolves \<open>save\<close> with a notification of the recipient it was given, the
  recipient ids of the successes and failures together are exactly the input ids, each as
  often as in the input (an id listed twice has two entries), hence without duplicates when
  the input has none.
\<close>

theorem execute_one_entry_per_occurrence:
  "fst (execute e dto w) =
      \<lparr>successful = successesOf (fst (recipientOutcomes e dto (d_userIds dto) w)),
       failed = failuresOf (fst (recipientOutcomes e dto (d_userIds dto) w))\<rparr>
   \<and> map fst (fst (recipientOutcomes e dto (d_userIds dto) w)) = d_userIds dto
   \<and> length (successful (fst (execute e dto w))) + length (failed (fst (execute e dto w)))
       = length (d_userIds dto)
   \<and> execute e (dto\<lparr>d_userIds := xs @ ys\<rparr>) w =
       (case execute e (dto\<lparr>d_userIds := xs\<rparr>) w of
          (r1, w1) \<Rightarrow>
            (case execute e (dto\<lparr>d_userIds := ys\<rparr>) w1 of
               (r2, w2) \<Rightarrow>
                 (\<lparr>successful = successful r1 @ successful r2,
                   failed = failed r1 @ failed r2\<rparr>, w2)))
   \<and> (prefs_findByUserId e uid w = (Inl err, wa) \<longrightarrow>
        execute e (dto\<lparr>d_userIds := [uid]\<rparr>) w =
          (\<lparr>successful = [],
            failed = [(uid, orElse (t_message err) ''Failed to create notification'')]\<rparr>, wa))
   \<and> (prefs_findByUserId e uid w = (Inr prefs, wa) \<and> selectChannels dto prefs = Inl err \<longrightarrow>
        execute e (dto\<lparr>d_userIds := [uid]\<rparr>) w =
          (\<lparr>successful = [],
            failed = [(uid, orElse (t_message err) ''Failed to create notification'')]\<rparr>, wa))
   \<and> (prefs_findByUserId e uid w = (Inr prefs, wa) \<and> selectChannels dto prefs = Inr chans
        \<and> (prefs = None \<or> chans \<noteq> []) \<and> newNotification e uid dto chans wa = (n, wb) \<longrightarrow>
        (validateNotification e n wb = (Inl err, wc) \<longrightarrow>
           execute e (dto\<lparr>d_userIds := [uid]\<rparr>) w =
             (\<lparr>successful = [],
               failed = [(uid, orElse (t_message err) ''Failed to create notification'')]\<rparr>, wc))
        \<and> (validateNotification e n wb = (Inr u, wc) \<and> notif_save e n wc = (Inl err, wd) \<longrightarrow>
           execute e (dto\<lparr>d_userIds := [uid]\<rparr>) w =
             (\<lparr>successful = [],
               failed = [(uid, orElse (t_message err) ''Failed to create notification'')]\<rparr>, wd))
        \<and> (validateNotification e n wb = (Inr u, wc) \<and> notif_save e n wc = (Inr saved, wd) \<longrightarrow>
           execute e (dto\<lparr>d_userIds := [uid]\<rparr>) w =
             (\<lparr>successful = [toResponseDTO saved], failed = []\<rparr>, wd)))
   \<and> ((\<forall>n w s w'. notif_save e n w = (Inr s, w') \<longrightarrow> userId s = userId n) \<longrightarrow>
        mset (map r_userId (successful (fst (execute e dto w)))
              @ map fst (failed (fst (execute e dto w)))) = mset (d_userIds dto)
        \<and> (distinct (d_userIds dto) \<longrightarrow>
             distinct (map r_userId (successful (fst (execute e dto w)))
                       @ map fst (failed (fst (execute e dto w))))))"
proof -
  have keys: "distinct (map r_userId (successful (fst (execute e dto w)))
                       @ map fst (failed (fst (execute e dto w))))"
    if c: "\<forall>n w s w'. notif_save e n w = (Inr s, w') \<longrightarrow> userId s = userId n"
      and d: "distinct (d_userIds dto)"
    using execute_keys [OF c, of dto w] d by (metis mset_eq_imp_distinct_iff)
  show ?thesis
    apply (intro conjI impI)
    subgoal by (rule execute_entries)
    subgoal by (rule recipientOutcomes_ids)
    subgoal by (rule execute_count)
    subgoal by (rule execute_append)
    subgoal by (erule execute_lookup_error)
    subgoal by (elim conjE) (rule execute_channels_error; assumption)
    subgoal by (elim conjE) (rule execute_validation_error; assumption)
    subgoal by (elim conjE) (rule execute_persistence_error; assumption)
    subgoal by (elim conjE) (rule execute_saved; assumption)
    subgoal by (erule execute_keys)
    subgoal by (erule keys, assumption)
    done
qed

lemma testEnv_save_contract:
  "\<forall>n w s w'. notif_save testEnv n w = (Inr s, w') \<longrightarrow> userId s = userId n"
  by (auto simp: testEnv_def split: if_splits)

text \<open>
  Witness for C4: recipients \<open>a\<close>, \<open>l\<close> (whose preference lookup is rejected), the empty
  id (rejected by validation), \<open>x\<close> (whose write the store rejects) and \<open>a\<close> again.
  Both turns of \<open>a\<close> succeed, the other three are failures with their own reasons, and the
  five entries carry the five input ids.
\<close>

theorem execute_one_entry_per_occurrence_witness:
  "prefs_findByUserId testEnv ''l'' ((worldAt 5)\<lparr>tw_unreachable := [''l''], tw_rejects := [''x'']\<rparr>)
     = (Inl (Error ''lookup failed''), (worldAt 5)\<lparr>tw_unreachable := [''l''], tw_rejects := [''x'']\<rparr>)
   \<and> execute testEnv ((bulkOf [''a'', ''l'', '''', ''x'', ''a''])\<lparr>d_userIds := [''l'']\<rparr>)
         ((worldAt 5)\<lparr>tw_unreachable := [''l''], tw_rejects := [''x'']\<rparr>)
       = (\<lparr>successful = [], failed = [(''l'', ''lookup failed'')]\<rparr>,
          (worldAt 5)\<lparr>tw_unreachable := [''l''], tw_rejects := [''x'']\<rparr>)
   \<and> map r_userId (successful (fst (execute testEnv (bulkOf [''a'', ''l'', '''', ''x'', ''a''])
         ((worldAt 5)\<lparr>tw_unreachable := [''l''], tw_rejects := [''x'']\<rparr>)))) = [''a'', ''a'']
   \<and> failed (fst (execute testEnv (bulkOf [''a'', ''l'', '''', ''x'', ''a''])
         ((worldAt 5)\<lparr>tw_unreachable := [''l''], tw_rejects := [''x'']\<rparr>)))
       = [(''l'', ''lookup failed''), ('''', ''User ID is required''), (''x'', ''write failed'')]
   \<and> mset (map r_userId (successful (fst (execute testEnv (bulkOf [''a'', ''l'', '''', ''x'', ''a''])
                ((worldAt 5)\<lparr>tw_unreachable := [''l''], tw_rejects := [''x'']\<rparr>))))
            @ map fst (failed (fst (execute testEnv (bulkOf [''a'', ''l'', '''', ''x'', ''a''])
                ((worldAt 5)\<lparr>tw_unreachable := [''l''], tw_rejects := [''x'']\<rparr>)))))
       = mset (d_userIds (bulkOf [''a'', ''l'', '''', ''x'', ''a'']))"
proof -
  let ?w = "(worldAt 5)\<lparr>tw_unreachable := [''l''], tw_rejects := [''x'']\<rparr>"
  let ?dto = "bulkOf [''a'', ''l'', '''', ''x'', ''a'']"
  have l: "prefs_findByUserId testEnv ''l'' ?w = (Inl (Error ''lookup failed''), ?w)"
    by (simp add: testEnv_def worldAt_def)
  have s: "map r_userId (successful (fst (execute testEnv ?dto ?w))) = [''a'', ''a'']"
    by code_simp
  have f: "failed (fst (execute testEnv ?dto ?w))
       = [(''l'', ''lookup failed''), ('''', ''User ID is required''), (''x'', ''write failed'')]"
    by code_simp
  note t = execute_one_entry_per_occurrence
             [where e = testEnv and dto = ?dto and w = ?w and uid = "''l''"
                and err = "Error ''lookup failed''" and wa = ?w]
  from t l have one: "execute testEnv (?dto\<lparr>d_userIds := [''l'']\<rparr>) ?w
       = (\<lparr>successful = [], failed = [(''l'', ''lookup failed'')]\<rparr>, ?w)"
    by (simp add: Error_def orElse_def)
  from t testEnv_save_contract
  have m: "mset (map r_userId (successful (fst (execute testEnv ?dto ?w)))
            @ map fst (failed (fst (execute testEnv ?dto ?w)))) = mset (d_userIds ?dto)"
    by blast
  from l one s f m show ?thesis
    by blast
qed

text \<open>
  Counterexample for C4 as stated: for the input \<open>[a, a]\<close> the lists hold two entries for
  the recipient id \<open>a\<close>, not one.
\<close>

theorem execute_repeated_id_counterexample:
  "d_userIds (bulkOf [''a'', ''a'']) = [''a'', ''a'']
   \<and> map r_userId (successful (fst (execute testEnv (bulkOf [''a'', ''a'']) (worldAt 5))))
       = [''a'', ''a'']
   \<and> failed (fst (execute testEnv (bulkOf [''a'', ''a'']) (worldAt 5))) = []"
  by code_simp

text \<open>
  Claim C7. For every request and every positive batch size, \<open>executeBatched\<close> returns,
  and returns what \<open>execute\<close> returns on the whole list of ids: the same successes, the same
  failures with the same reasons (in the same order), and the same world.
\<close>

theorem executeBatched_same_as_execute:
  "0 < batchSize \<Longrightarrow> executeBatched e dto batchSize w = Some (execute e dto w)"
  by (simp add: executeBatched_def execute_def executeBatched_loop_outcomes)

text \<open>
  Witness for C7: three recipients in batches of two; the failures of the batched run are
  those of the plain run.
\<close>

theorem executeBatched_same_as_execute_witness:
  "(0::nat) < 2
   \<and> executeBatched testEnv (bulkOf [''a'', '''', ''x'']) 2 ((worldAt 5)\<lparr>tw_rejects := [''x'']\<rparr>)
      = Some (execute testEnv (bulkOf [''a'', '''', ''x'']) ((worldAt 5)\<lparr>tw_rejects := [''x'']\<rparr>))
   \<and> map_option (\<lambda>r. failed (fst r))
        (executeBatched testEnv (bulkOf [''a'', '''', ''x'']) 2 ((worldAt 5)\<lparr>tw_rejects := [''x'']\<rparr>))
      = Some [('''', ''User ID is required''), (''x'', ''write failed'')]"
proof -
  have p: "(0::nat) < 2" by simp
  have f: "failed (fst (execute testEnv (bulkOf [''a'', '''', ''x''])
       ((worldAt 5)\<lparr>tw_rejects := [''x'']\<rparr>)))
       = [('''', ''User ID is required''), (''x'', ''write failed'')]"
    by code_simp
  from executeBatched_same_as_execute
         [OF p, of testEnv "bulkOf [''a'', '''', ''x'']" "(worldAt 5)\<lparr>tw_rejects := [''x'']\<rparr>"] p f
  show ?thesis by simp
qed

section \<open>Subscription health\<close>

lemma recordFailure_count:
  "failureCount (fst (recordFailure e err s w)) = failureCount s + 1"
  by (simp add: recordFailure_def deactivate_def split_def Let_def)

lemma recordFailure_active:
  "isActive (fst (recordFailure e err s w)) = (isActive s \<and> failureCount s + 1 < 3)"
  by (auto simp: recordFailure_def deactivate_def split_def Let_def)

lemma recordSuccess_count: "failureCount (fst (recordSuccess e s w)) = 0"
  by (simp add: recordSuccess_def updateLastUsed_def split_def Let_def)

lemma recordSuccess_active: "isActive (fst (recordSuccess e s w)) = isActive s"
  by (simp add: recordSuccess_def updateLastUsed_def split_def Let_def)

text \<open>Three failures in a row from a counter of zero deactivate; one or two do not.\<close>

lemma three_failures_deactivate:
  assumes "failureCount s = 0"
  shows "\<not> isActive (fst (recordFailure e e3 (fst (recordFailure e e2
            (fst (recordFailure e e1 s w1)) w2)) w3))"
  using assms by (simp add: recordFailure_active recordFailure_count)

lemma two_failures_keep_active:
  assumes "failureCount s = 0" and "isActive s"
  shows "isActive (fst (recordFailure e e1 s w1))
         \<and> isActive (fst (recordFailure e e2 (fst (recordFailure e e1 s w1)) w2))"
  using assms by (simp add: recordFailure_active recordFailure_count)

text \<open>
  A success sets the counter to zero whatever it was, so three fresh failures are needed
  to deactivate an active subscription again.
\<close>

lemma success_restarts_count:
  assumes "isActive s"
  shows "failureCount (fst (recordSuccess e s w0)) = 0
         \<and> isActive (fst (recordFailure e e2 (fst (recordFailure e e1
              (fst (recordSuccess e s w0)) w1)) w2))
         \<and> \<not> isActive (fst (recordFailure e e3 (fst (recordFailure e e2 (fst (recordFailure e e1
              (fst (recordSuccess e s w0)) w1)) w2)) w3))"
  using assms
  by (simp add: recordFailure_active recordFailure_count recordSuccess_count recordSuccess_active)

text \<open>
  A failure that the provider reports as \<open>SUBSCRIPTION_EXPIRED\<close> deactivates at once,
  whatever the counter, and leaves the counter alone.
\<close>

lemma onFailed_expired:
  "isActive (fst (onFailed e ''SUBSCRIPTION_EXPIRED'' s w)) = False
   \<and> failureCount (fst (onFailed e ''SUBSCRIPTION_EXPIRED'' s w)) = failureCount s"
  by (simp add: onFailed_def deactivate_def)

text \<open>
  Claim C3 on the code. The counter behaves as claimed (lemmas above), and a web endpoint
  answering 410 is deactivated by the job at once. For a mobile subscription whose token
  Firebase reports as no longer registered, \<open>FCMProvider.sendBatch\<close> hands on Firebase's
  message instead of \<open>SUBSCRIPTION_EXPIRED\<close> (as \<open>FCMProvider.send\<close> does), so the job
  records an ordinary failure: the subscription, at counter 0 before, is still active
  afterwards with counter 1.
\<close>

theorem processJob_fcm_token_gone:
  "error_code fcmGone = Some ''messaging/registration-token-not-registered''
   \<and> map isActive (tw_subs (snd (processJob testEnv testPushEnv ''u1''
         ((worldAt 5)\<lparr>tw_subs := [mobileSub 0], tw_fcmAnswer := fcmGone\<rparr>)))) = [True]
   \<and> map failureCount (tw_subs (snd (processJob testEnv testPushEnv ''u1''
         ((worldAt 5)\<lparr>tw_subs := [mobileSub 0], tw_fcmAnswer := fcmGone\<rparr>)))) = [1]
   \<and> t_statusCode webGone = Some 410
   \<and> map isActive (tw_subs (snd (processJob testEnv testPushEnv ''u1''
         ((worldAt 5)\<lparr>tw_subs := [webSub 0], tw_webAnswer := Some webGone\<rparr>)))) = [False]"
  by code_simp

section \<open>Presence\<close>

text \<open>
  The scenario of the specification: after \<open>connect(c1,u1)\<close>, \<open>connect(c2,u1)\<close>,
  \<open>disconnect(c1)\<close> the recipient is online; after \<open>disconnect(c2)\<close> the recipient is
  offline and the entry and the metadata are gone.
\<close>

lemma presence_two_devices:
  "isUserOnline (runEvents [Connect ''c1'' ''u1'' (Some ''ua''), Connect ''c2'' ''u1'' None,
                            Disconnect ''c1''] newManager) ''u1''
   \<and> \<not> isUserOnline (runEvents [Connect ''c1'' ''u1'' (Some ''ua''), Connect ''c2'' ''u1'' None,
                            Disconnect ''c1'', Disconnect ''c2''] newManager) ''u1''
   \<and> userConnections (runEvents [Connect ''c1'' ''u1'' (Some ''ua''), Connect ''c2'' ''u1'' None,
                            Disconnect ''c1'', Disconnect ''c2''] newManager) ''u1'' = None
   \<and> userMetadata (runEvents [Connect ''c1'' ''u1'' (Some ''ua''), Connect ''c2'' ''u1'' None,
                            Disconnect ''c1'', Disconnect ''c2''] newManager) ''u1'' = None"
  by code_simp

lemma set_add_set: "set (set_add c xs) = insert c (set xs)"
  by (auto simp: set_add_def)

lemma set_add_distinct: "distinct xs \<Longrightarrow> distinct (set_add c xs)"
  by (simp add: set_add_def)

lemma set_add_nonempty: "set_add c xs \<noteq> []"
  by (auto simp: set_add_def)

lemma addConnection_inv:
  assumes "presenceInv m L" and "u \<noteq> []"
    and "socketUsers m c = None \<or> socketUsers m c = Some u"
  shows "presenceInv (addConnection c u md m) (\<lambda>u'. liveStep u' (Connect c u md) (L u'))"
proof -
  from assms(1) have uc: "\<And>v. userConnections m v = (if L v = [] then None else Some (L v))"
    and su: "\<And>d v. (socketUsers m d = Some v) = (d \<in> set (L v))"
    and di: "\<And>v. distinct (L v)" and em: "L [] = []"
    by (simp_all add: presenceInv_def)
  have sockets: "(case userConnections m u of None \<Rightarrow> [] | Some s \<Rightarrow> s) = L u"
    by (simp add: uc)
  have other: "c \<notin> set (L v)" if "v \<noteq> u" for v
    using assms(3) su [of c v] that by auto
  show ?thesis
    unfolding presenceInv_def
    using uc su di em assms(2) other
    by (cases md)
       (auto simp: addConnection_def sockets Let_def liveStep_def set_add_set set_add_distinct
          set_add_nonempty)
qed

lemma removeConnection_inv:
  assumes "presenceInv m L"
  shows "presenceInv (removeConnection c m) (\<lambda>u'. liveStep u' (Disconnect c) (L u'))"
proof -
  from assms(1) have uc: "\<And>v. userConnections m v = (if L v = [] then None else Some (L v))"
    and su: "\<And>d v. (socketUsers m d = Some v) = (d \<in> set (L v))"
    and di: "\<And>v. distinct (L v)" and em: "L [] = []"
    by (simp_all add: presenceInv_def)
  show ?thesis
  proof (cases "socketUsers m c")
    case None
    then have "c \<notin> set (L v)" for v
      using su [of c v] by simp
    then have "removeAll c (L v) = L v" for v
      by simp
    with None assms show ?thesis
      by (simp add: removeConnection_def liveStep_def)
  next
    case (Some uid)
    then have mem: "c \<in> set (L uid)"
      using su by simp
    then have ne: "uid \<noteq> []"
      using em by auto
    have other: "removeAll c (L v) = L v" if "v \<noteq> uid" for v
      using su [of c v] Some that by simp
    have ucu: "userConnections m uid = Some (L uid)"
      using uc [of uid] mem by auto
    have res: "removeConnection c m =
        (if removeAll c (L uid) = []
         then m\<lparr>userConnections := (userConnections m)(uid := None),
                userMetadata := (userMetadata m)(uid := None),
                socketUsers := (socketUsers m)(c := None)\<rparr>
         else m\<lparr>userConnections := (userConnections m)(uid \<mapsto> removeAll c (L uid)),
                socketUsers := (socketUsers m)(c := None)\<rparr>)"
      using Some ne ucu by (simp add: removeConnection_def Let_def)
    show ?thesis
      unfolding presenceInv_def res
      using uc su di em other
      by (auto simp: liveStep_def distinct_removeAll)
  qed
qed

lemma runEvents_inv:
  assumes "singleOwner m evs" and "presenceInv m L"
  shows "presenceInv (fold applyEvent evs m) (\<lambda>u. fold (liveStep u) evs (L u))"
  using assms
proof (induction evs arbitrary: m L)
  case Nil
  then show ?case by simp
next
  case (Cons ev evs)
  show ?case
  proof (cases ev)
    case (Connect c u md)
    with Cons.prems have g: "u \<noteq> []" "socketUsers m c = None \<or> socketUsers m c = Some u"
      and rest: "singleOwner (addConnection c u md m) evs"
      by (auto split: option.splits)
    from Cons.IH [OF rest addConnection_inv [OF Cons.prems(2) g]] Connect show ?thesis
      by simp
  next
    case (Disconnect c)
    with Cons.prems have rest: "singleOwner (removeConnection c m) evs"
      by simp
    from Cons.IH [OF rest removeConnection_inv [OF Cons.prems(2)]] Disconnect show ?thesis
      by simp
  qed
qed

lemma newManager_inv: "presenceInv newManager (\<lambda>u. [])"
  by (simp add: presenceInv_def newManager_def)

text \<open>
  On runs in which no user id is empty and no socket is registered under a second user
  while still held for a first, the manager agrees with the events: a recipient is
  reported online iff a connection registered for them has not been removed since.
\<close>

lemma isUserOnline_iff_live:
  assumes "singleOwner newManager evs"
  shows "isUserOnline (runEvents evs newManager) u = (liveConnections evs u \<noteq> [])"
proof -
  from runEvents_inv [OF assms newManager_inv]
  have "userConnections (runEvents evs newManager) u =
          (if liveConnections evs u = [] then None else Some (liveConnections evs u))"
    by (simp add: presenceInv_def runEvents_def liveConnections_def)
  then show ?thesis
    by (simp add: isUserOnline_def)
qed

text \<open>
  Claim C8 on the code. A socket that authenticates as \<open>u1\<close> and then as \<open>u2\<close> is
  registered under both, but the reverse lookup keeps only \<open>u2\<close>; when it disconnects it
  is removed from \<open>u2\<close> alone. \<open>u1\<close> has no connection left that was registered and not
  since removed, and is still reported online.
\<close>

theorem isUserOnline_after_reauthentication:
  "liveConnections [Connect ''c1'' ''u1'' None, Connect ''c1'' ''u2'' None, Disconnect ''c1'']
     ''u1'' = []
   \<and> isUserOnline (runEvents [Connect ''c1'' ''u1'' None, Connect ''c1'' ''u2'' None,
                              Disconnect ''c1''] newManager) ''u1'' = True
   \<and> userConnections (runEvents [Connect ''c1'' ''u1'' None, Connect ''c1'' ''u2'' None,
                              Disconnect ''c1''] newManager) ''u1'' = Some [''c1'']"
  by code_simp

section \<open>Creation always sets an expiry\<close>

























end
